theory Spec2Isabelle
  imports Complex_Main "HOL-Library.Monad_Syntax"
begin

section \<open>JavaScript values used by the widgets\<close>

text \<open>
  The widgets of \<^verbatim>\<open>js/enhanced-interactions.js\<close> compute with strings, booleans and
  numbers that are integers or \<^verbatim>\<open>NaN\<close> (results of \<^verbatim>\<open>parseInt\<close>, counters,
  \<^verbatim>\<open>Date.now()\<close>). A number is modelled as an unbounded integer or \<open>NaN\<close>; the model
  is exact for the integers a double represents exactly (magnitude below \<open>2^53\<close>), which
  covers ratings, prices, counters and millisecond timestamps. Strings are lists of
  characters.
\<close>

datatype js_num = NaN | Num int

datatype js_error = SyntaxError | TypeError | QuotaExceededError

text \<open>
  A call either runs to its end (\<open>Done\<close>) or is cut short by an exception
  (\<open>Thrown\<close>); both carry the state reached, because a mutation made before the
  exception stays.
\<close>

datatype 's outcome = Done 's | Thrown js_error 's

fun state_of :: "'s outcome \<Rightarrow> 's" where
  "state_of (Done s) = s"
| "state_of (Thrown e s) = s"

fun error_of :: "'s outcome \<Rightarrow> js_error option" where
  "error_of (Done s) = None"
| "error_of (Thrown e s) = Some e"

text \<open>\<^verbatim>\<open>if (x)\<close> on a number: \<^verbatim>\<open>NaN\<close> and \<^verbatim>\<open>0\<close> are falsy.\<close>

fun truthy :: "js_num \<Rightarrow> bool" where
  "truthy NaN = False"
| "truthy (Num n) = (n \<noteq> 0)"

text \<open>\<^verbatim>\<open>a > b\<close> on numbers: false as soon as one side is \<^verbatim>\<open>NaN\<close>.\<close>

fun js_gt :: "js_num \<Rightarrow> js_num \<Rightarrow> bool" where
  "js_gt (Num a) (Num b) = (b < a)"
| "js_gt _ _ = False"

text \<open>\<^verbatim>\<open>a === b\<close> on numbers: \<^verbatim>\<open>NaN\<close> equals nothing, itself included.\<close>

fun js_strict_eq :: "js_num \<Rightarrow> js_num \<Rightarrow> bool" where
  "js_strict_eq (Num a) (Num b) = (a = b)"
| "js_strict_eq _ _ = False"

subsection \<open>\<^verbatim>\<open>parseInt\<close> and \<^verbatim>\<open>String\<close> of an integer\<close>

definition isWhiteSpace :: "char \<Rightarrow> bool" where
  "isWhiteSpace c \<longleftrightarrow> c \<in> {CHR '' '', CHR 0x09, CHR 0x0A, CHR 0x0B, CHR 0x0C, CHR 0x0D}"

text \<open>The value of a character as a digit in some radix up to 36, if it has one.\<close>

definition digit_val :: "char \<Rightarrow> nat option" where
  "digit_val c =
     (let k = (of_char c :: nat) in
      if 48 \<le> k \<and> k \<le> 57 then Some (k - 48)
      else if 97 \<le> k \<and> k \<le> 122 then Some (k - 87)
      else if 65 \<le> k \<and> k \<le> 90 then Some (k - 55)
      else None)"

definition is_radix_digit :: "nat \<Rightarrow> char \<Rightarrow> bool" where
  "is_radix_digit R c = (case digit_val c of None \<Rightarrow> False | Some d \<Rightarrow> d < R)"

definition radix_value :: "nat \<Rightarrow> string \<Rightarrow> nat" where
  "radix_value R Z =
     foldl (\<lambda>acc c. acc * R + (case digit_val c of None \<Rightarrow> 0 | Some d \<Rightarrow> d)) 0 Z"

text \<open>
  \<^verbatim>\<open>parseInt(s)\<close> with no radix argument: leading white space is skipped, a sign is read,
  a \<^verbatim>\<open>0x\<close> prefix selects radix 16, and the longest run of digits is the value; no digit
  gives \<^verbatim>\<open>NaN\<close>. Of the white space characters, the ASCII ones are modelled.
\<close>

definition parseInt :: "string \<Rightarrow> js_num" where
  "parseInt inputString =
     (let S = dropWhile isWhiteSpace inputString;
          sign = (case S of c # _ \<Rightarrow> if c = CHR ''-'' then - 1 else (1 :: int) | [] \<Rightarrow> 1);
          S1 = (case S of c # r \<Rightarrow> if c = CHR ''-'' \<or> c = CHR ''+'' then r else S | [] \<Rightarrow> S);
          hex = (take 2 S1 = ''0x'' \<or> take 2 S1 = ''0X'');
          R = (if hex then 16 else 10);
          S2 = (if hex then drop 2 S1 else S1);
          Z = takeWhile (is_radix_digit R) S2
      in if Z = [] then NaN else Num (sign * int (radix_value R Z)))"

text \<open>A missing \<^verbatim>\<open>data-*\<close> attribute reads as \<^verbatim>\<open>undefined\<close>, which \<^verbatim>\<open>parseInt\<close> turns into
  the string \<^verbatim>\<open>"undefined"\<close> first.\<close>

definition ToString_attr :: "string option \<Rightarrow> string" where
  "ToString_attr a = (case a of None \<Rightarrow> ''undefined'' | Some s \<Rightarrow> s)"

definition digit_char :: "nat \<Rightarrow> char" where
  "digit_char d = ''0123456789'' ! d"

fun digits :: "nat \<Rightarrow> string" where
  "digits n = (if n < 10 then [digit_char n] else digits (n div 10) @ [digit_char (n mod 10)])"

declare digits.simps [simp del]

text \<open>The characters that \<open>digits\<close> writes.\<close>

definition dec_char :: "char \<Rightarrow> bool" where
  "dec_char c \<longleftrightarrow> (\<exists>d<10. c = digit_char d)"

text \<open>\<^verbatim>\<open>String(n)\<close> for an integer \<open>n\<close> (what assigning a number to a \<^verbatim>\<open>data-*\<close>
  attribute stores).\<close>

definition Number_toString :: "int \<Rightarrow> string" where
  "Number_toString n = (if n < 0 then CHR ''-'' # digits (nat (- n)) else digits (nat n))"

subsection \<open>\<^verbatim>\<open>toFixed(1)\<close> of a quotient of integers\<close>

text \<open>
  The average of the ratings is the double nearest to the quotient of their sum by their
  number (round to nearest, ties to even, 53 bits), and \<^verbatim>\<open>toFixed(1)\<close> prints the decimal
  with one digit after the point that is nearest to that double, the larger one on a tie.
  Both are computed here in exact integer arithmetic, for quotients in the range of the
  normal doubles and below \<open>10^21\<close>.
\<close>

fun bit_length :: "nat \<Rightarrow> nat" where
  "bit_length n = (if n = 0 then 0 else Suc (bit_length (n div 2)))"

declare bit_length.simps [simp del]

text \<open>The double nearest to \<open>p / q\<close>, for positive \<open>p\<close> and \<open>q\<close>, as mantissa \<open>m\<close> and
  exponent \<open>e\<close>: its value is \<open>m * 2^e\<close>, and \<open>2^52 \<le> p / (q * 2^e) < 2^53\<close>.\<close>

definition nearest_double :: "nat \<Rightarrow> nat \<Rightarrow> nat \<times> int" where
  "nearest_double p q =
     (let t = int (bit_length p) - int (bit_length q);
          at_least = (if 0 \<le> t then q * 2 ^ nat t \<le> p else q \<le> p * 2 ^ nat (- t));
          e = (if at_least then t else t - 1) - 52;
          N = (if e \<le> 0 then p * 2 ^ nat (- e) else p);
          D = (if e \<le> 0 then q else q * 2 ^ nat e);
          f = N div D;
          r = N mod D;
          m = (if 2 * r < D then f else if D < 2 * r then f + 1
               else if even f then f else f + 1)
      in (m, e))"

text \<open>The number of tenths nearest to the double \<open>m * 2^e\<close>, the larger one on a tie.\<close>

definition nearest_tenths :: "nat \<times> int \<Rightarrow> nat" where
  "nearest_tenths d =
     (case d of (m, e) \<Rightarrow>
        if 0 \<le> e then 10 * m * 2 ^ nat e
        else (20 * m + 2 ^ nat (- e)) div (2 * 2 ^ nat (- e)))"

text \<open>The digits of \<open>n\<close> tenths, with the point before the last digit.\<close>

definition tenths_text :: "nat \<Rightarrow> string" where
  "tenths_text n =
     (let d = digits n; m = (if length d < 2 then CHR ''0'' # d else d)
      in butlast m @ ''.'' @ [last m])"

definition toFixed1_of_quotient :: "int \<Rightarrow> nat \<Rightarrow> string" where
  "toFixed1_of_quotient ratingSum totalReviews =
     (if totalReviews = 0 then ''NaN''
      else if ratingSum = 0 then ''0.0''
      else (if ratingSum < 0 then ''-'' else '''') @
           tenths_text (nearest_tenths (nearest_double (nat \<bar>ratingSum\<bar>) totalReviews)))"

subsection \<open>\<^verbatim>\<open>toLowerCase\<close> and \<^verbatim>\<open>includes\<close>\<close>

text \<open>Lower case of the letters \<^verbatim>\<open>A\<close> to \<^verbatim>\<open>Z\<close>; every other character is kept.\<close>

definition lower_char :: "char \<Rightarrow> char" where
  "lower_char c =
     (case map_of (zip ''ABCDEFGHIJKLMNOPQRSTUVWXYZ'' ''abcdefghijklmnopqrstuvwxyz'') c of
        None \<Rightarrow> c
      | Some l \<Rightarrow> l)"

definition toLowerCase :: "string \<Rightarrow> string" where
  "toLowerCase s = map lower_char s"

fun starts_with :: "string \<Rightarrow> string \<Rightarrow> bool" where
  "starts_with s [] = True"
| "starts_with [] (c # t) = False"
| "starts_with (d # s) (c # t) = (d = c \<and> starts_with s t)"

fun includes_str :: "string \<Rightarrow> string \<Rightarrow> bool" where
  "includes_str [] t = (t = [])"
| "includes_str (c # s) t = (starts_with (c # s) t \<or> includes_str s t)"

section \<open>ProductFilter\<close>

text \<open>
  The filter object of \<^verbatim>\<open>ProductFilter\<close>. The constructor sets the four string
  dimensions to \<^verbatim>\<open>'all'\<close>; \<^verbatim>\<open>maxPrice\<close> and \<^verbatim>\<open>searchTerm\<close> do not exist until
  their handler has run (\<open>None\<close> is \<^verbatim>\<open>undefined\<close>). A dimension holds what the clicked
  button's \<^verbatim>\<open>data-value\<close> holds, \<^verbatim>\<open>undefined\<close> when the attribute is missing.
\<close>

record product_filter =
  category :: "string option"
  priceRange :: "string option"
  material :: "string option"
  color :: "string option"
  maxPrice :: "js_num option"
  searchTerm :: "string option"

definition ProductFilter_constructor :: product_filter where
  "ProductFilter_constructor =
     \<lparr>category = Some ''all'', priceRange = Some ''all'', material = Some ''all'',
      color = Some ''all'', maxPrice = None, searchTerm = None\<rparr>"

text \<open>What a product card exposes: its \<^verbatim>\<open>data-category\<close>, \<^verbatim>\<open>data-material\<close> and
  \<^verbatim>\<open>data-price\<close> attributes (\<open>None\<close> when the attribute is missing) and the text of its
  \<^verbatim>\<open>.product-title\<close> and \<^verbatim>\<open>.product-description\<close> elements, which every card has.\<close>

record product_card =
  card_category :: "string option"
  card_material :: "string option"
  card_price :: "string option"
  card_title :: string
  card_description :: string

text \<open>
  \<^verbatim>\<open>this.filters[filterType] = filterValue\<close>. A key that names none of the four string
  dimensions creates a property that no filter reads, so the record is unchanged; the
  one exception is the key \<^verbatim>\<open>maxPrice\<close>, which would put a string where the price
  filter expects a number: that assignment is outside this model (\<open>None\<close>). No button
  of the source's markup carries it.
\<close>

definition handleFilterClick ::
  "string \<Rightarrow> string option \<Rightarrow> product_filter \<Rightarrow> product_filter option" where
  "handleFilterClick filterType filterValue pf =
     (if filterType = ''category'' then Some (pf\<lparr>category := filterValue\<rparr>)
      else if filterType = ''priceRange'' then Some (pf\<lparr>priceRange := filterValue\<rparr>)
      else if filterType = ''material'' then Some (pf\<lparr>material := filterValue\<rparr>)
      else if filterType = ''color'' then Some (pf\<lparr>color := filterValue\<rparr>)
      else if filterType = ''maxPrice'' then None
      else Some pf)"

definition handleSearch :: "string \<Rightarrow> product_filter \<Rightarrow> product_filter" where
  "handleSearch tm pf = pf\<lparr>searchTerm := Some (toLowerCase tm)\<rparr>"

definition handlePriceFilter :: "string \<Rightarrow> product_filter \<Rightarrow> product_filter" where
  "handlePriceFilter maxPrice_str pf = pf\<lparr>maxPrice := Some (parseInt maxPrice_str)\<rparr>"

text \<open>
  The value of \<^verbatim>\<open>show\<close> at the end of the loop body of \<^verbatim>\<open>applyFilters\<close> for one
  card: it starts true and the four filters, in the order category, material, search,
  price, each may set it to false. \<^verbatim>\<open>if (this.searchTerm)\<close> is false for \<^verbatim>\<open>undefined\<close>
  and for the empty string; \<^verbatim>\<open>if (this.filters.maxPrice)\<close> is false for \<^verbatim>\<open>undefined\<close>,
  \<^verbatim>\<open>NaN\<close> and \<^verbatim>\<open>0\<close>.
\<close>

definition isVisible :: "product_filter \<Rightarrow> product_card \<Rightarrow> bool" where
  "isVisible pf pcard =
     (let show0 = True;
          show1 = (if category pf \<noteq> Some ''all''
                   then (if card_category pcard \<noteq> category pf then False else show0)
                   else show0);
          show2 = (if material pf \<noteq> Some ''all''
                   then (if card_material pcard \<noteq> material pf then False else show1)
                   else show1);
          show3 = (case searchTerm pf of
                     None \<Rightarrow> show2
                   | Some tm \<Rightarrow>
                       if tm \<noteq> [] then
                         (let title_l = toLowerCase (card_title pcard);
                              description_l = toLowerCase (card_description pcard)
                          in if \<not> includes_str title_l tm \<and> \<not> includes_str description_l tm
                             then False else show2)
                       else show2);
          show4 = (case maxPrice pf of
                     None \<Rightarrow> show3
                   | Some m \<Rightarrow>
                       if truthy m then
                         (let price = parseInt (ToString_attr (card_price pcard))
                          in if js_gt price m then False else show3)
                       else show3)
      in show4)"

text \<open>\<^verbatim>\<open>applyFilters\<close> sets the \<^verbatim>\<open>display\<close> of every card from its \<^verbatim>\<open>show\<close> flag.\<close>

definition applyFilters :: "product_filter \<Rightarrow> product_card list \<Rightarrow> string list" where
  "applyFilters pf productCards =
     map (\<lambda>pcard. if isVisible pf pcard then ''block'' else ''none'') productCards"

subsection \<open>The four predicates of the filter\<close>

text \<open>What each filter dimension lets through, read off the guards of \<^verbatim>\<open>applyFilters\<close>.\<close>

definition category_ok :: "product_filter \<Rightarrow> product_card \<Rightarrow> bool" where
  "category_ok pf pcard \<longleftrightarrow> category pf = Some ''all'' \<or> card_category pcard = category pf"

definition material_ok :: "product_filter \<Rightarrow> product_card \<Rightarrow> bool" where
  "material_ok pf pcard \<longleftrightarrow> material pf = Some ''all'' \<or> card_material pcard = material pf"

definition price_ok :: "product_filter \<Rightarrow> product_card \<Rightarrow> bool" where
  "price_ok pf pcard \<longleftrightarrow>
     (case maxPrice pf of
        None \<Rightarrow> True
      | Some NaN \<Rightarrow> True
      | Some (Num m) \<Rightarrow>
          m = 0 \<or>
          (case parseInt (ToString_attr (card_price pcard)) of NaN \<Rightarrow> True | Num p \<Rightarrow> p \<le> m))"

definition search_ok :: "product_filter \<Rightarrow> product_card \<Rightarrow> bool" where
  "search_ok pf pcard \<longleftrightarrow>
     (case searchTerm pf of
        None \<Rightarrow> True
      | Some tm \<Rightarrow>
          tm = [] \<or> includes_str (toLowerCase (card_title pcard)) tm
          \<or> includes_str (toLowerCase (card_description pcard)) tm)"

text \<open>Containment without regard to case.\<close>

definition ci_contains :: "string \<Rightarrow> string \<Rightarrow> bool" where
  "ci_contains s t = includes_str (toLowerCase s) (toLowerCase t)"

text \<open>
  The visibility rule in the words of the specification, for comparison with
  \<open>isVisible\<close>: the price of the product is the number in its \<^verbatim>\<open>data-price\<close>, and a
  maximum price that is set, whatever its value, bounds it.
\<close>

fun js_le :: "js_num \<Rightarrow> js_num \<Rightarrow> bool" where
  "js_le (Num a) (Num b) = (a \<le> b)"
| "js_le _ _ = False"

definition isVisible_spec :: "product_filter \<Rightarrow> product_card \<Rightarrow> bool" where
  "isVisible_spec pf pcard \<longleftrightarrow>
     (category pf = Some ''all'' \<or> card_category pcard = category pf) \<and>
     (material pf = Some ''all'' \<or> card_material pcard = material pf) \<and>
     (case maxPrice pf of
        None \<Rightarrow> True
      | Some m \<Rightarrow> js_le (parseInt (ToString_attr (card_price pcard))) m) \<and>
     (case searchTerm pf of
        None \<Rightarrow> True
      | Some tm \<Rightarrow>
          tm = [] \<or> ci_contains (card_title pcard) tm \<or> ci_contains (card_description pcard) tm)"

section \<open>ProductComparison\<close>

record product_comparison =
  compareList :: "string list"
  maxCompare :: nat

definition ProductComparison_constructor :: product_comparison where
  "ProductComparison_constructor = \<lparr>compareList = [], maxCompare = 3\<rparr>"

definition removeFromCompare :: "string \<Rightarrow> product_comparison \<Rightarrow> product_comparison" where
  "removeFromCompare productId pc =
     pc\<lparr>compareList := filter (\<lambda>i. i \<noteq> productId) (compareList pc)\<rparr>"

text \<open>
  \<^verbatim>\<open>addToCompare\<close>, on the id of the card whose button was clicked. Its last branch
  calls \<^verbatim>\<open>this.showNotification\<close>; the class defines no such method (the notification
  function of the file is the global \<^verbatim>\<open>showNotification\<close>), so the call raises a
  \<^verbatim>\<open>TypeError\<close>.
\<close>

definition addToCompare :: "string \<Rightarrow> product_comparison \<Rightarrow> product_comparison outcome" where
  "addToCompare productId pc =
     (if productId \<in> set (compareList pc) then Done (removeFromCompare productId pc)
      else if length (compareList pc) < maxCompare pc
        then Done (pc\<lparr>compareList := compareList pc @ [productId]\<rparr>)
      else Thrown TypeError pc)"

definition clearCompare :: "product_comparison \<Rightarrow> product_comparison" where
  "clearCompare pc = pc\<lparr>compareList := []\<rparr>"

text \<open>The operations on the compare list, and a run of them from the constructor's
  state; an exception ends the handler, not the page, so the run goes on from the state
  reached.\<close>

datatype compare_op = Add string | Remove string | Clear

fun compare_step :: "product_comparison \<Rightarrow> compare_op \<Rightarrow> product_comparison" where
  "compare_step pc (Add i) = state_of (addToCompare i pc)"
| "compare_step pc (Remove i) = removeFromCompare i pc"
| "compare_step pc Clear = clearCompare pc"

definition compare_run :: "compare_op list \<Rightarrow> product_comparison" where
  "compare_run ops = foldl compare_step ProductComparison_constructor ops"

section \<open>ReviewSystem\<close>

subsection \<open>Data\<close>

text \<open>The review object that \<^verbatim>\<open>submitReview\<close> builds (field \<^verbatim>\<open>id\<close> is \<open>review_id\<close>
  here).\<close>

record review_rec =
  review_id :: int
  rating :: int
  title :: string
  review :: string
  name :: string
  email :: string
  recommend :: bool
  date :: string
  helpful :: int
  images :: "string list"

text \<open>
  \<^verbatim>\<open>localStorage\<close>: the stored items, and the user agent's decision to refuse a write
  (it raises \<^verbatim>\<open>QuotaExceededError\<close> when the new value cannot be stored; when that
  happens is the user agent's business, so it is a component of the store).
\<close>

record storage =
  items :: "string \<rightharpoonup> string"
  refuses :: "(string \<rightharpoonup> string) \<Rightarrow> string \<Rightarrow> string \<Rightarrow> bool"

definition getItem :: "storage \<Rightarrow> string \<Rightarrow> string option" where
  "getItem ls k = items ls k"

definition setItem :: "storage \<Rightarrow> string \<Rightarrow> string \<Rightarrow> js_error + storage" where
  "setItem ls k v =
     (if refuses ls (items ls) k v then Inl QuotaExceededError
      else Inr (ls\<lparr>items := (items ls)(k \<mapsto> v)\<rparr>))"

text \<open>A \<^verbatim>\<open>.review-item\<close> element of the list: its \<^verbatim>\<open>data-rating\<close> attribute and its
  \<^verbatim>\<open>style.display\<close>. The element at position \<open>i\<close> was built from the review at
  position \<open>i\<close>.\<close>

record review_item =
  dataset_rating :: string
  display :: string

text \<open>
  The summary block of the review section: the text of the \<^verbatim>\<open>.rating-number\<close> element,
  the number of reviews that the \<^verbatim>\<open>.rating-count\<close> element shows, and the count shown in
  the bar of each star value (\<^verbatim>\<open>data-stars\<close> 1 to 5).
\<close>

record summary_display =
  rating_number :: string
  rating_count :: nat
  rating_bar_count :: "int \<rightharpoonup> nat"

text \<open>
  The page as the review system sees it. \<open>rating_stars\<close> says whether the document
  still has an element of class \<^verbatim>\<open>rating-stars\<close>: the section is created with one, and
  \<^verbatim>\<open>StarRating.render\<close> replaces the whole \<^verbatim>\<open>className\<close> of the container it is given.
\<close>

record page =
  reviews :: "review_rec list"
  reviews_list :: "review_item list"
  summary :: summary_display
  rating_stars :: bool
  localStorage :: storage
  notifications :: "(string \<times> string) list"

text \<open>The form of the review modal as \<^verbatim>\<open>submitReview\<close> reads it: the \<^verbatim>\<open>data-rating\<close>
  attribute that the star widget sets on the form (missing until a star is clicked) and
  the named fields; an unchecked checkbox has no entry.\<close>

record review_form =
  form_rating :: "string option"
  form_title :: string
  form_review :: string
  form_name :: string
  form_email :: string
  form_recommend :: "string option"

subsection \<open>Operations\<close>

text \<open>The global \<^verbatim>\<open>showNotification(message, type)\<close>; the notification system exists
  from page load on.\<close>

definition showNotification :: "string \<Rightarrow> string \<Rightarrow> page \<Rightarrow> page" where
  "showNotification message type s = s\<lparr>notifications := notifications s @ [(message, type)]\<rparr>"

text \<open>
  \<^verbatim>\<open>loadReviews\<close> and \<^verbatim>\<open>saveReviews\<close>. \<^verbatim>\<open>JSON.parse\<close> and \<^verbatim>\<open>JSON.stringify\<close> belong to
  the platform and are parameters; \<^verbatim>\<open>JSON.parse\<close> raises \<^verbatim>\<open>SyntaxError\<close> on a text
  that is not JSON, and nothing in \<^verbatim>\<open>loadReviews\<close> catches it. \<^verbatim>\<open>saved ? \<dots> : []\<close> takes
  the second branch for \<^verbatim>\<open>null\<close> (no item) and for the empty string.
\<close>

definition loadReviews ::
  "(string \<Rightarrow> js_error + review_rec list) \<Rightarrow> storage \<Rightarrow> js_error + review_rec list" where
  "loadReviews JSON_parse ls =
     (case getItem ls ''bespoke-reviews'' of
        None \<Rightarrow> Inr []
      | Some saved \<Rightarrow> if saved \<noteq> [] then JSON_parse saved else Inr [])"

definition saveReviews :: "(review_rec list \<Rightarrow> string) \<Rightarrow> page \<Rightarrow> page outcome" where
  "saveReviews JSON_stringify s =
     (case setItem (localStorage s) ''bespoke-reviews'' (JSON_stringify (reviews s)) of
        Inl e \<Rightarrow> Thrown e s
      | Inr ls \<Rightarrow> Done (s\<lparr>localStorage := ls\<rparr>))"

text \<open>The summary block as \<^verbatim>\<open>createReviewSection\<close> writes it: \<^verbatim>\<open>0.0\<close>, \<^verbatim>\<open>0 reviews\<close>,
  and five bars with count \<^verbatim>\<open>0\<close>.\<close>

definition createReviewSection :: summary_display where
  "createReviewSection =
     \<lparr>rating_number = ''0.0'', rating_count = 0,
      rating_bar_count = [1 \<mapsto> 0, 2 \<mapsto> 0, 3 \<mapsto> 0, 4 \<mapsto> 0, 5 \<mapsto> 0]\<rparr>"

text \<open>
  \<^verbatim>\<open>updateSummary\<close>. Nothing is touched when there is no review. Otherwise, in the order
  of the source: the average and the number of reviews are written; a \<^verbatim>\<open>StarRating\<close> is
  built on \<^verbatim>\<open>document.querySelector('.rating-stars')\<close>; the five bars are written. The
  constructor of \<^verbatim>\<open>StarRating\<close> renders at once, and \<^verbatim>\<open>render\<close> assigns
  \<^verbatim>\<open>this.container.className\<close>: on the element it takes the class \<^verbatim>\<open>rating-stars\<close> away,
  and on \<^verbatim>\<open>null\<close>, which the query returns once the class is gone, it raises a
  \<^verbatim>\<open>TypeError\<close>, before the bars are reached.

  The average is a double and its text is \<^verbatim>\<open>averageRating.toFixed(1)\<close>: floating-point
  arithmetic of the platform, taken as the parameter \<open>average_text\<close>, from the sum of the
  ratings and the number of reviews to the text. The widths of the bars are computed
  from the counts and are not part of the record.
\<close>

definition updateSummary :: "(int \<Rightarrow> nat \<Rightarrow> string) \<Rightarrow> page \<Rightarrow> page outcome" where
  "updateSummary average_text s =
     (if length (reviews s) = 0 then Done s
      else
        let totalReviews = length (reviews s);
            ratingSum = foldl (\<lambda>sum r. sum + rating r) 0 (reviews s);
            s1 = s\<lparr>summary := (summary s)\<lparr>rating_number := average_text ratingSum totalReviews,
                                            rating_count := totalReviews\<rparr>\<rparr>
        in if \<not> rating_stars s1 then Thrown TypeError s1
           else
             let s2 = s1\<lparr>rating_stars := False\<rparr>
             in Done (s2\<lparr>summary := (summary s2)\<lparr>rating_bar_count :=
                        fold (\<lambda>i bars.
                                bars(i \<mapsto> length (filter (\<lambda>r. rating r = i) (reviews s2))))
                          [1, 2, 3, 4, 5] (rating_bar_count (summary s2))\<rparr>\<rparr>))"

definition createReviewElement :: "review_rec \<Rightarrow> review_item" where
  "createReviewElement r = \<lparr>dataset_rating = Number_toString (rating r), display = ''''\<rparr>"

text \<open>\<^verbatim>\<open>renderReviews\<close> rebuilds the list and ends with \<^verbatim>\<open>updateSummary\<close>.\<close>

definition renderReviews :: "(int \<Rightarrow> nat \<Rightarrow> string) \<Rightarrow> page \<Rightarrow> page outcome" where
  "renderReviews average_text s =
     updateSummary average_text (s\<lparr>reviews_list := map createReviewElement (reviews s)\<rparr>)"

text \<open>\<^verbatim>\<open>addReview\<close>: \<^verbatim>\<open>unshift\<close>, \<^verbatim>\<open>saveReviews\<close>, \<^verbatim>\<open>renderReviews\<close>, \<^verbatim>\<open>updateSummary\<close>; an
  exception of one step ends the call there.\<close>

definition addReview ::
  "(int \<Rightarrow> nat \<Rightarrow> string) \<Rightarrow> (review_rec list \<Rightarrow> string) \<Rightarrow> review_rec \<Rightarrow> page
     \<Rightarrow> page outcome" where
  "addReview average_text JSON_stringify r s =
     (let s1 = s\<lparr>reviews := r # reviews s\<rparr> in
      (case saveReviews JSON_stringify s1 of
         Thrown e s2 \<Rightarrow> Thrown e s2
       | Done s2 \<Rightarrow>
           (case renderReviews average_text s2 of
              Thrown e s3 \<Rightarrow> Thrown e s3
            | Done s3 \<Rightarrow> updateSummary average_text s3)))"

text \<open>
  \<^verbatim>\<open>submitReview\<close>. \<open>now\<close> is \<^verbatim>\<open>Date.now()\<close> and \<open>isoDate\<close> is
  \<^verbatim>\<open>new Date().toISOString()\<close>. The only test is \<^verbatim>\<open>if (!rating)\<close>: it stops on \<^verbatim>\<open>NaN\<close>
  and on \<^verbatim>\<open>0\<close>. The modal is removed and the success notification is shown after
  \<^verbatim>\<open>addReview\<close> has returned.
\<close>

definition submitReview ::
  "(int \<Rightarrow> nat \<Rightarrow> string) \<Rightarrow> (review_rec list \<Rightarrow> string) \<Rightarrow> int \<Rightarrow> string
     \<Rightarrow> review_form \<Rightarrow> page \<Rightarrow> page outcome" where
  "submitReview average_text JSON_stringify now isoDate form s =
     (case parseInt (ToString_attr (form_rating form)) of
        NaN \<Rightarrow> Done (showNotification ''Please select a rating'' ''error'' s)
      | Num n \<Rightarrow>
          if n = 0 then Done (showNotification ''Please select a rating'' ''error'' s)
          else
            let r = \<lparr>review_id = now, rating = n, title = form_title form,
                     review = form_review form, name = form_name form,
                     email = form_email form,
                     recommend = (form_recommend form = Some ''on''),
                     date = isoDate, helpful = 0, images = []\<rparr>
            in (case addReview average_text JSON_stringify r s of
                  Thrown e s1 \<Rightarrow> Thrown e s1
                | Done s1 \<Rightarrow>
                    Done (showNotification ''Thank you for your review!'' ''success'' s1)))"

text \<open>\<^verbatim>\<open>review.helpful++\<close> on the first review that \<^verbatim>\<open>find\<close> returns. \<^verbatim>\<open>markHelpful\<close>
  then saves, rewrites the text of the review's button and disables it, and notifies;
  the button is presentation and is not part of the page record, and \<^verbatim>\<open>markHelpful\<close>
  itself never looks at it.\<close>

fun bump_helpful :: "int \<Rightarrow> review_rec list \<Rightarrow> review_rec list" where
  "bump_helpful reviewId [] = []"
| "bump_helpful reviewId (r # rs) =
     (if review_id r = reviewId then r\<lparr>helpful := helpful r + 1\<rparr> # rs
      else r # bump_helpful reviewId rs)"

definition markHelpful :: "(review_rec list \<Rightarrow> string) \<Rightarrow> int \<Rightarrow> page \<Rightarrow> page outcome" where
  "markHelpful JSON_stringify reviewId s =
     (case find (\<lambda>r. review_id r = reviewId) (reviews s) of
        None \<Rightarrow> Done s
      | Some found \<Rightarrow>
          (let s1 = s\<lparr>reviews := bump_helpful reviewId (reviews s)\<rparr> in
           (case saveReviews JSON_stringify s1 of
              Thrown e s2 \<Rightarrow> Thrown e s2
            | Done s2 \<Rightarrow>
                Done (showNotification ''Thank you for your feedback!'' ''success'' s2))))"

text \<open>\<^verbatim>\<open>filterReviews\<close>: every review item is shown or hidden by the filter string of
  the clicked button (its \<^verbatim>\<open>data-filter\<close>, so a button with that attribute exists when
  the active class is moved).\<close>

definition filterReviews :: "string \<Rightarrow> page \<Rightarrow> page" where
  "filterReviews flt s =
     s\<lparr>reviews_list :=
         map (\<lambda>item.
                let show0 = True;
                    show1 = (if flt \<noteq> ''all'' then
                               (if flt = ''images'' then False
                                else js_strict_eq (parseInt (dataset_rating item)) (parseInt flt))
                             else show0)
                in item\<lparr>display := (if show1 then ''block'' else ''none'')\<rparr>)
           (reviews_list s)\<rparr>"

text \<open>The reviews whose item is on display, in the order of the list.\<close>

definition filteredView :: "page \<Rightarrow> review_rec list" where
  "filteredView s =
     map fst (filter (\<lambda>(r, item). display item \<noteq> ''none'') (zip (reviews s) (reviews_list s)))"

text \<open>The constructor: the reviews are loaded, the section is created and the list is
  rendered; an exception of \<^verbatim>\<open>loadReviews\<close> or of \<^verbatim>\<open>renderReviews\<close> leaves no review
  system.\<close>

definition ReviewSystem_constructor ::
  "(int \<Rightarrow> nat \<Rightarrow> string) \<Rightarrow> (string \<Rightarrow> js_error + review_rec list) \<Rightarrow> storage
     \<Rightarrow> (string \<times> string) list \<Rightarrow> js_error + page" where
  "ReviewSystem_constructor average_text JSON_parse ls notes =
     (case loadReviews JSON_parse ls of
        Inl e \<Rightarrow> Inl e
      | Inr rs \<Rightarrow>
          (case renderReviews average_text
                  \<lparr>reviews = rs, reviews_list = [], summary = createReviewSection,
                   rating_stars = True, localStorage = ls, notifications = notes\<rparr> of
             Thrown e s \<Rightarrow> Inl e
           | Done s \<Rightarrow> Inr s))"

text \<open>The review object that \<^verbatim>\<open>submitReview\<close> builds from the form, for a rating \<open>n\<close>.\<close>

definition review_of_form :: "int \<Rightarrow> string \<Rightarrow> int \<Rightarrow> review_form \<Rightarrow> review_rec" where
  "review_of_form now isoDate n form =
     \<lparr>review_id = now, rating = n, title = form_title form, review = form_review form,
      name = form_name form, email = form_email form,
      recommend = (form_recommend form = Some ''on''), date = isoDate, helpful = 0,
      images = []\<rparr>"

text \<open>
  What the review form can hand to \<^verbatim>\<open>submitReview\<close>. The \<^verbatim>\<open>data-rating\<close> of the form is
  written by the star widget only: its stars carry the ratings 1 to \<^verbatim>\<open>maxStars\<close>, which
  is 5, and a click stores the rating of the clicked star. The text fields are declared
  in the markup of the form as \<^verbatim>\<open>required maxlength="100"\<close> (title),
  \<^verbatim>\<open>required minlength="10" maxlength="1000"\<close> (review) and
  \<^verbatim>\<open>required maxlength="50"\<close> (name), and \<^verbatim>\<open>submitReview\<close> is called from the submit
  event of the form alone, which a form that breaks one of them does not fire.
\<close>

definition star_widget_rating :: "string option \<Rightarrow> bool" where
  "star_widget_rating a \<longleftrightarrow>
     (case a of None \<Rightarrow> True | Some t \<Rightarrow> t \<in> set (map Number_toString [1, 2, 3, 4, 5]))"

definition review_form_constraints :: "review_form \<Rightarrow> bool" where
  "review_form_constraints form \<longleftrightarrow>
     1 \<le> length (form_title form) \<and> length (form_title form) \<le> 100 \<and>
     10 \<le> length (form_review form) \<and> length (form_review form) \<le> 1000 \<and>
     1 \<le> length (form_name form) \<and> length (form_name form) \<le> 50"

text \<open>The condition of the specification on a draft: a rating that is present and in
  1 to 5, a title of 1 to 100 characters, a text of 10 to 1000 and a name of 1 to 50.\<close>

definition draft_valid :: "review_form \<Rightarrow> bool" where
  "draft_valid form \<longleftrightarrow>
     (case form_rating form of
        None \<Rightarrow> False
      | Some t \<Rightarrow> (case parseInt t of NaN \<Rightarrow> False | Num n \<Rightarrow> 1 \<le> n \<and> n \<le> 5)) \<and>
     1 \<le> length (form_title form) \<and> length (form_title form) \<le> 100 \<and>
     10 \<le> length (form_review form) \<and> length (form_review form) \<le> 1000 \<and>
     1 \<le> length (form_name form) \<and> length (form_name form) \<le> 50"

text \<open>The count that the bar of star value \<open>k\<close> shows, \<open>0\<close> for a bar that does not
  exist.\<close>

definition bar_count :: "summary_display \<Rightarrow> int \<Rightarrow> nat" where
  "bar_count d k = (case rating_bar_count d k of None \<Rightarrow> 0 | Some n \<Rightarrow> n)"

text \<open>The list shows the collection: item \<open>i\<close> carries the rating of review \<open>i\<close>, as
  after \<^verbatim>\<open>renderReviews\<close>.\<close>

definition rendered :: "page \<Rightarrow> bool" where
  "rendered s \<longleftrightarrow>
     list_all2 (\<lambda>r item. dataset_rating item = Number_toString (rating r))
       (reviews s) (reviews_list s)"

text \<open>The invariant of the compare list.\<close>

definition compare_inv :: "product_comparison \<Rightarrow> bool" where
  "compare_inv pc \<longleftrightarrow>
     distinct (compareList pc) \<and> length (compareList pc) \<le> 3 \<and> maxCompare pc = 3"

section \<open>A reference JSON codec for review collections\<close>

text \<open>
  Where a statement needs the platform's \<^verbatim>\<open>JSON.stringify\<close> and \<^verbatim>\<open>JSON.parse\<close> at a
  concrete value, the two functions below stand for them. \<open>JSON_stringify\<close> writes an
  array of review objects the way \<^verbatim>\<open>JSON.stringify\<close> does (no white space, properties in
  creation order, strings quoted with the escapes of \<^verbatim>\<open>QuoteJSONString\<close>). \<open>JSON_parse\<close>
  reads such a text back and answers \<^verbatim>\<open>SyntaxError\<close> on everything else. It is
  narrower than \<^verbatim>\<open>JSON.parse\<close>, which also accepts white space, other orders of the
  properties and values of other shapes; the statements that use it need two facts only:
  it reads back what \<open>JSON_stringify\<close> writes, and a text that is not JSON at all is an
  error.
\<close>

definition dquote :: char where
  "dquote = CHR 0x22"

definition backslash :: char where
  "backslash = CHR 0x5C"

definition hex_char :: "nat \<Rightarrow> char" where
  "hex_char d = ''0123456789abcdef'' ! d"

definition quote_char :: "char \<Rightarrow> string" where
  "quote_char c =
     (if c = CHR 0x08 then [backslash, CHR ''b'']
      else if c = CHR 0x09 then [backslash, CHR ''t'']
      else if c = CHR 0x0A then [backslash, CHR ''n'']
      else if c = CHR 0x0C then [backslash, CHR ''f'']
      else if c = CHR 0x0D then [backslash, CHR ''r'']
      else if c = dquote then [backslash, dquote]
      else if c = backslash then [backslash, backslash]
      else if (of_char c :: nat) < 32 then
        [backslash, CHR ''u'', CHR ''0'', CHR ''0'',
         hex_char ((of_char c :: nat) div 16), hex_char ((of_char c :: nat) mod 16)]
      else [c])"

definition QuoteJSONString :: "string \<Rightarrow> string" where
  "QuoteJSONString s = dquote # concat (map quote_char s) @ [dquote]"

fun join :: "string \<Rightarrow> string list \<Rightarrow> string" where
  "join sep [] = []"
| "join sep [x] = x"
| "join sep (x # y # ys) = x @ sep @ join sep (y # ys)"

definition json_member :: "string \<Rightarrow> string \<Rightarrow> string" where
  "json_member k v = QuoteJSONString k @ '':'' @ v"

definition stringify_bool :: "bool \<Rightarrow> string" where
  "stringify_bool b = (if b then ''true'' else ''false'')"

definition stringify_strings :: "string list \<Rightarrow> string" where
  "stringify_strings xs = ''['' @ join '','' (map QuoteJSONString xs) @ '']''"

definition stringify_review :: "review_rec \<Rightarrow> string" where
  "stringify_review r =
     ''{'' @ join '',''
       [json_member ''id'' (Number_toString (review_id r)),
        json_member ''rating'' (Number_toString (rating r)),
        json_member ''title'' (QuoteJSONString (title r)),
        json_member ''review'' (QuoteJSONString (review r)),
        json_member ''name'' (QuoteJSONString (name r)),
        json_member ''email'' (QuoteJSONString (email r)),
        json_member ''recommend'' (stringify_bool (recommend r)),
        json_member ''date'' (QuoteJSONString (date r)),
        json_member ''helpful'' (Number_toString (helpful r)),
        json_member ''images'' (stringify_strings (images r))] @ ''}''"

definition JSON_stringify :: "review_rec list \<Rightarrow> string" where
  "JSON_stringify rs = ''['' @ join '','' (map stringify_review rs) @ '']''"

text \<open>The reader: each part takes the text and returns its value with the rest of the
  text, or \<open>None\<close> when the text does not start with such a part.\<close>

definition expect :: "string \<Rightarrow> string \<Rightarrow> (unit \<times> string) option" where
  "expect lit s = (if starts_with s lit then Some ((), drop (length lit) s) else None)"

definition p_digits :: "string \<Rightarrow> (int \<times> string) option" where
  "p_digits s =
     (let Z = takeWhile (is_radix_digit 10) s
      in if Z = [] then None
         else Some (int (radix_value 10 Z), dropWhile (is_radix_digit 10) s))"

definition p_number :: "string \<Rightarrow> (int \<times> string) option" where
  "p_number s =
     (case s of
        [] \<Rightarrow> None
      | c # r \<Rightarrow>
          if c = CHR ''-'' then map_option (\<lambda>(n, rest). (- n, rest)) (p_digits r)
          else p_digits s)"

definition unescape :: "char \<Rightarrow> char option" where
  "unescape e =
     (if e = CHR ''b'' then Some (CHR 0x08)
      else if e = CHR ''t'' then Some (CHR 0x09)
      else if e = CHR ''n'' then Some (CHR 0x0A)
      else if e = CHR ''f'' then Some (CHR 0x0C)
      else if e = CHR ''r'' then Some (CHR 0x0D)
      else if e = dquote then Some dquote
      else if e = backslash then Some backslash
      else if e = CHR ''/'' then Some (CHR ''/'')
      else None)"

text \<open>Four hexadecimal digits as a character; code units from \<open>0x100\<close> on have no
  character in this model.\<close>

definition hex4 :: "string \<Rightarrow> char option" where
  "hex4 h =
     (if length h = 4 \<and> list_all (is_radix_digit 16) h \<and> radix_value 16 h < 256
      then Some (char_of (radix_value 16 h)) else None)"

fun p_chars :: "string \<Rightarrow> (string \<times> string) option" where
  "p_chars [] = None"
| "p_chars (c # r) =
     (if c = dquote then Some ([], r)
      else if c = backslash then
        (case r of
           [] \<Rightarrow> None
         | e # r1 \<Rightarrow>
             if e = CHR ''u'' then
               (case hex4 (take 4 r1) of
                  None \<Rightarrow> None
                | Some u \<Rightarrow> map_option (\<lambda>(cs, rest). (u # cs, rest)) (p_chars (drop 4 r1)))
             else
               (case unescape e of
                  None \<Rightarrow> None
                | Some u \<Rightarrow> map_option (\<lambda>(cs, rest). (u # cs, rest)) (p_chars r1)))
      else if (of_char c :: nat) < 32 then None
      else map_option (\<lambda>(cs, rest). (c # cs, rest)) (p_chars r))"

definition p_string :: "string \<Rightarrow> (string \<times> string) option" where
  "p_string s = (case s of [] \<Rightarrow> None | c # r \<Rightarrow> if c = dquote then p_chars r else None)"

definition p_bool :: "string \<Rightarrow> (bool \<times> string) option" where
  "p_bool s =
     (if starts_with s ''true'' then Some (True, drop 4 s)
      else if starts_with s ''false'' then Some (False, drop 5 s)
      else None)"

text \<open>The elements of an array after its opening bracket; the first argument bounds
  the number of elements by the length of the text.\<close>

fun p_elems :: "nat \<Rightarrow> (string \<Rightarrow> ('a \<times> string) option) \<Rightarrow> string \<Rightarrow> ('a list \<times> string) option" where
  "p_elems 0 p s = None"
| "p_elems (Suc fuel) p s =
     (case p s of
        None \<Rightarrow> None
      | Some (x, s1) \<Rightarrow>
          (case s1 of
             [] \<Rightarrow> None
           | c # s2 \<Rightarrow>
               if c = CHR '','' then map_option (\<lambda>(xs, rest). (x # xs, rest)) (p_elems fuel p s2)
               else if c = CHR '']'' then Some ([x], s2)
               else None))"

definition p_array :: "(string \<Rightarrow> ('a \<times> string) option) \<Rightarrow> string \<Rightarrow> ('a list \<times> string) option" where
  "p_array p s =
     (case s of
        [] \<Rightarrow> None
      | c # r \<Rightarrow>
          if c = CHR ''['' then
            (case r of
               [] \<Rightarrow> None
             | c1 # r1 \<Rightarrow> if c1 = CHR '']'' then Some ([], r1) else p_elems (length r) p r)
          else None)"

definition p_member :: "string \<Rightarrow> (string \<Rightarrow> ('a \<times> string) option) \<Rightarrow> string \<Rightarrow> ('a \<times> string) option" where
  "p_member k p s = (case expect (QuoteJSONString k @ '':'') s of None \<Rightarrow> None | Some (u, s1) \<Rightarrow> p s1)"

definition p_review :: "string \<Rightarrow> (review_rec \<times> string) option" where
  "p_review s0 =
     do {
       (u, s1) \<leftarrow> expect ''{'' s0;
       (v_id, s2) \<leftarrow> p_member ''id'' p_number s1;
       (u, s3) \<leftarrow> expect '','' s2;
       (v_rating, s4) \<leftarrow> p_member ''rating'' p_number s3;
       (u, s5) \<leftarrow> expect '','' s4;
       (v_title, s6) \<leftarrow> p_member ''title'' p_string s5;
       (u, s7) \<leftarrow> expect '','' s6;
       (v_review, s8) \<leftarrow> p_member ''review'' p_string s7;
       (u, s9) \<leftarrow> expect '','' s8;
       (v_name, s10) \<leftarrow> p_member ''name'' p_string s9;
       (u, s11) \<leftarrow> expect '','' s10;
       (v_email, s12) \<leftarrow> p_member ''email'' p_string s11;
       (u, s13) \<leftarrow> expect '','' s12;
       (v_recommend, s14) \<leftarrow> p_member ''recommend'' p_bool s13;
       (u, s15) \<leftarrow> expect '','' s14;
       (v_date, s16) \<leftarrow> p_member ''date'' p_string s15;
       (u, s17) \<leftarrow> expect '','' s16;
       (v_helpful, s18) \<leftarrow> p_member ''helpful'' p_number s17;
       (u, s19) \<leftarrow> expect '','' s18;
       (v_images, s20) \<leftarrow> p_member ''images'' (p_array p_string) s19;
       (u, s21) \<leftarrow> expect ''}'' s20;
       Some (\<lparr>review_id = v_id, rating = v_rating, title = v_title, review = v_review,
               name = v_name, email = v_email, recommend = v_recommend, date = v_date,
               helpful = v_helpful, images = v_images\<rparr>, s21)
     }"

definition JSON_parse :: "string \<Rightarrow> js_error + review_rec list" where
  "JSON_parse s =
     (case p_array p_review s of
        None \<Rightarrow> Inl SyntaxError
      | Some (rs, rest) \<Rightarrow> if rest = [] then Inr rs else Inl SyntaxError)"

section \<open>Concrete inputs\<close>

text \<open>A store with nothing in it that accepts every write, the page of a first visit,
  one review, and a product card.\<close>

definition empty_store :: storage where
  "empty_store = \<lparr>items = Map.empty, refuses = (\<lambda>its k v. False)\<rparr>"

definition first_visit :: page where
  "first_visit =
     \<lparr>reviews = [], reviews_list = [], summary = createReviewSection,
      rating_stars = True, localStorage = empty_store, notifications = []\<rparr>"

definition ana_review :: review_rec where
  "ana_review =
     \<lparr>review_id = 1730000000000, rating = 5, title = ''Great bag'',
      review = ''Exceeded expectations in every way'', name = ''Ana'', email = '''',
      recommend = True, date = ''2024-10-27T03:33:20.000Z'', helpful = 0, images = []\<rparr>"

definition ana_form :: review_form where
  "ana_form =
     \<lparr>form_rating = Some ''5'', form_title = ''Great bag'',
      form_review = ''Exceeded expectations in every way'', form_name = ''Ana'',
      form_email = '''', form_recommend = Some ''on''\<rparr>"

text \<open>A second visitor, who gives four stars.\<close>

definition bo_form :: review_form where
  "bo_form =
     \<lparr>form_rating = Some ''4'', form_title = ''Good'',
      form_review = ''Solid stitching, fair price'', form_name = ''Bo'',
      form_email = '''', form_recommend = None\<rparr>"

definition bo_review :: review_rec where
  "bo_review =
     \<lparr>review_id = 1720000000000, rating = 4, title = ''Good'',
      review = ''Solid stitching, fair price'', name = ''Bo'', email = '''',
      recommend = False, date = ''2024-07-03T09:46:40.000Z'', helpful = 0, images = []\<rparr>"

definition tote :: product_card where
  "tote =
     \<lparr>card_category = Some ''tote'', card_material = Some ''leather'',
      card_price = Some ''50'', card_title = ''Classic Tote'',
      card_description = ''Hand-stitched leather''\<rparr>"


section \<open>Properties\<close>

subsection \<open>\<^verbatim>\<open>parseInt\<close> reads back what \<^verbatim>\<open>String\<close> writes\<close>

lemma below_ten:
  "(d :: nat) < 10 \<Longrightarrow>
   d = 0 \<or> d = 1 \<or> d = 2 \<or> d = 3 \<or> d = 4 \<or> d = 5 \<or> d = 6 \<or> d = 7 \<or> d = 8 \<or> d = 9"
  by arith

lemma of_char_digit_char: "d < 10 \<Longrightarrow> (of_char (digit_char d) :: nat) = 48 + d"
  using below_ten [of d] by (auto simp: digit_char_def)

lemma digit_val_digit_char: "d < 10 \<Longrightarrow> digit_val (digit_char d) = Some d"
  by (simp add: digit_val_def of_char_digit_char Let_def)

lemma digits_dec: "c \<in> set (digits n) \<Longrightarrow> dec_char c"
proof (induction n rule: digits.induct)
  case (1 n)
  show ?case
  proof (cases "n < 10")
    case True
    with "1.prems" show ?thesis by (auto simp: digits.simps [of n] dec_char_def)
  next
    case False
    with "1.prems" have "c \<in> set (digits (n div 10)) \<or> c = digit_char (n mod 10)"
      by (auto simp: digits.simps [of n])
    then show ?thesis
    proof
      assume "c \<in> set (digits (n div 10))"
      with False "1.IH" show ?thesis by simp
    next
      assume "c = digit_char (n mod 10)"
      then show ?thesis unfolding dec_char_def by (intro exI [of _ "n mod 10"]) simp
    qed
  qed
qed

lemma digits_nonempty: "digits n \<noteq> []"
  by (subst digits.simps) simp

lemma radix_value_snoc:
  "radix_value R (Z @ [c]) = radix_value R Z * R + (case digit_val c of None \<Rightarrow> 0 | Some d \<Rightarrow> d)"
  by (simp add: radix_value_def)

lemma radix_value_digits: "radix_value 10 (digits n) = n"
proof (induction n rule: digits.induct)
  case (1 n)
  show ?case
  proof (cases "n < 10")
    case True
    then show ?thesis
      by (simp add: digits.simps [of n] radix_value_def digit_val_digit_char)
  next
    case False
    with "1.IH" have "radix_value 10 (digits (n div 10)) = n div 10" by simp
    with False show ?thesis
      by (simp add: digits.simps [of n] radix_value_snoc digit_val_digit_char)
  qed
qed

lemma dec_char_facts:
  assumes "dec_char c"
  shows "\<not> isWhiteSpace c" "c \<noteq> CHR ''-''" "c \<noteq> CHR ''+''" "c \<noteq> CHR ''x''" "c \<noteq> CHR ''X''"
    "is_radix_digit 10 c"
proof -
  from assms obtain d where d: "d < 10" "c = digit_char d" unfolding dec_char_def by blast
  then have k: "(of_char c :: nat) = 48 + d" by (simp add: of_char_digit_char)
  show "\<not> isWhiteSpace c" using k d(1) by (auto simp: isWhiteSpace_def)
  show "c \<noteq> CHR ''-''" using k d(1) by auto
  show "c \<noteq> CHR ''+''" using k d(1) by auto
  show "c \<noteq> CHR ''x''" using k d(1) by auto
  show "c \<noteq> CHR ''X''" using k d(1) by auto
  show "is_radix_digit 10 c" using d by (simp add: is_radix_digit_def digit_val_digit_char)
qed

lemma dec_no_hex:
  assumes "\<forall>c\<in>set Z. dec_char c"
  shows "take 2 Z \<noteq> ''0x''" "take 2 Z \<noteq> ''0X''"
proof -
  show "take 2 Z \<noteq> ''0x''"
  proof
    assume "take 2 Z = ''0x''"
    then have "CHR ''x'' \<in> set (take 2 Z)" by simp
    then have "CHR ''x'' \<in> set Z" by (rule in_set_takeD)
    with assms dec_char_facts(4) show False by blast
  qed
  show "take 2 Z \<noteq> ''0X''"
  proof
    assume "take 2 Z = ''0X''"
    then have "CHR ''X'' \<in> set (take 2 Z)" by simp
    then have "CHR ''X'' \<in> set Z" by (rule in_set_takeD)
    with assms dec_char_facts(5) show False by blast
  qed
qed

lemma dec_takeWhile:
  assumes "\<forall>c\<in>set Z. dec_char c"
  shows "takeWhile (is_radix_digit 10) Z = Z"
  using assms dec_char_facts(6) by (auto intro: takeWhile_eq_all_conv [THEN iffD2])

lemma parseInt_dec:
  assumes "Z \<noteq> []" "\<forall>c\<in>set Z. dec_char c"
  shows "parseInt Z = Num (int (radix_value 10 Z))"
proof -
  from assms obtain c r where Z: "Z = c # r" by (cases Z) auto
  with assms have c: "dec_char c" by simp
  have dw: "dropWhile isWhiteSpace Z = Z" using Z dec_char_facts(1) [OF c] by simp
  have sg: "(case Z of c # _ \<Rightarrow> if c = CHR ''-'' then - 1 else (1 :: int) | [] \<Rightarrow> 1) = 1"
    using Z dec_char_facts(2) [OF c] by simp
  have s1: "(case Z of c # r \<Rightarrow> if c = CHR ''-'' \<or> c = CHR ''+'' then r else Z | [] \<Rightarrow> Z) = Z"
    using Z dec_char_facts(2,3) [OF c] by simp
  show ?thesis
    unfolding parseInt_def Let_def dw sg s1
    using dec_no_hex [OF assms(2)] assms(1) by (simp add: dec_takeWhile [OF assms(2)])
qed

lemma parseInt_minus_dec:
  assumes "Z \<noteq> []" "\<forall>c\<in>set Z. dec_char c"
  shows "parseInt (CHR ''-'' # Z) = Num (- int (radix_value 10 Z))"
proof -
  have dw: "dropWhile isWhiteSpace (CHR ''-'' # Z) = CHR ''-'' # Z"
    by (simp add: isWhiteSpace_def)
  show ?thesis
    unfolding parseInt_def Let_def dw
    using dec_no_hex [OF assms(2)] assms(1) by (simp add: dec_takeWhile [OF assms(2)])
qed

lemma parseInt_Number_toString: "parseInt (Number_toString n) = Num n"
proof (cases "n < 0")
  case True
  then show ?thesis
    using parseInt_minus_dec [of "digits (nat (- n))"] digits_dec digits_nonempty
    by (simp add: Number_toString_def radix_value_digits)
next
  case False
  then show ?thesis
    using parseInt_dec [of "digits (nat n)"] digits_dec digits_nonempty
    by (simp add: Number_toString_def radix_value_digits)
qed

lemmas parseInt_eval = parseInt_def isWhiteSpace_def is_radix_digit_def digit_val_def
  radix_value_def ToString_attr_def Let_def

subsection \<open>ProductFilter: visibility\<close>

lemma toLowerCase_empty: "toLowerCase t = [] \<longleftrightarrow> t = []"
  by (simp add: toLowerCase_def)

lemma isVisible_conj:
  "isVisible pf pcard \<longleftrightarrow>
     category_ok pf pcard \<and> material_ok pf pcard \<and> price_ok pf pcard \<and> search_ok pf pcard"
  unfolding isVisible_def category_ok_def material_ok_def price_ok_def search_ok_def Let_def
  by (auto split: option.splits js_num.splits)

text \<open>
  Claim C6, as the specification states it, fails: a maximum price of \<open>0\<close> is set, yet
  \<^verbatim>\<open>applyFilters\<close> shows a product that costs \<open>50\<close>, because \<^verbatim>\<open>if (this.filters.maxPrice)\<close>
  treats \<open>0\<close> like no maximum.
\<close>

theorem isVisible_spec_counterexample:
  "isVisible (handlePriceFilter ''0'' ProductFilter_constructor) tote
   \<and> \<not> isVisible_spec (handlePriceFilter ''0'' ProductFilter_constructor) tote"
  by (simp add: isVisible_def isVisible_spec_def handlePriceFilter_def
      ProductFilter_constructor_def tote_def parseInt_eval)

text \<open>
  Claim C6, amended. For every filter state and every product card, the card is shown
  exactly when four predicates hold together: the category filter is \<^verbatim>\<open>'all'\<close> or equals
  the card's category; the material filter is \<^verbatim>\<open>'all'\<close> or equals the card's material;
  the maximum price is unset, \<^verbatim>\<open>NaN\<close> or \<open>0\<close>, or the card's parsed price is \<^verbatim>\<open>NaN\<close> or
  at most the maximum; the search term is unset or empty, or the lower-cased title or
  description contains it. Visibility is a function of the filter state and the card.
  Setting the category, the material, the maximum price or the search term leaves the
  predicates of the other dimensions as they were, and after \<^verbatim>\<open>handleSearch(t)\<close> the
  search predicate is containment of \<open>t\<close> without regard to case.
\<close>

theorem isVisible_is_conjunction:
  "(isVisible pf pcard \<longleftrightarrow>
      category_ok pf pcard \<and> material_ok pf pcard \<and> price_ok pf pcard \<and> search_ok pf pcard)
   \<and> (\<forall>v pf'. handleFilterClick ''category'' v pf = Some pf' \<longrightarrow>
         (category pf' = v \<and> material_ok pf' pcard = material_ok pf pcard
          \<and> price_ok pf' pcard = price_ok pf pcard \<and> search_ok pf' pcard = search_ok pf pcard))
   \<and> (\<forall>v pf'. handleFilterClick ''material'' v pf = Some pf' \<longrightarrow>
         (material pf' = v \<and> category_ok pf' pcard = category_ok pf pcard
          \<and> price_ok pf' pcard = price_ok pf pcard \<and> search_ok pf' pcard = search_ok pf pcard))
   \<and> (\<forall>v. category_ok (handlePriceFilter v pf) pcard = category_ok pf pcard
          \<and> material_ok (handlePriceFilter v pf) pcard = material_ok pf pcard
          \<and> search_ok (handlePriceFilter v pf) pcard = search_ok pf pcard)
   \<and> (\<forall>t. category_ok (handleSearch t pf) pcard = category_ok pf pcard
          \<and> material_ok (handleSearch t pf) pcard = material_ok pf pcard
          \<and> price_ok (handleSearch t pf) pcard = price_ok pf pcard
          \<and> (search_ok (handleSearch t pf) pcard \<longleftrightarrow>
               t = [] \<or> ci_contains (card_title pcard) t \<or> ci_contains (card_description pcard) t))"
proof (intro conjI allI impI)
  show "isVisible pf pcard \<longleftrightarrow>
      category_ok pf pcard \<and> material_ok pf pcard \<and> price_ok pf pcard \<and> search_ok pf pcard"
    by (rule isVisible_conj)
qed (auto simp: handleFilterClick_def handlePriceFilter_def handleSearch_def category_ok_def
      material_ok_def price_ok_def search_ok_def ci_contains_def toLowerCase_empty)

text \<open>The amended C6 at a concrete input: with the category set to \<^verbatim>\<open>backpack\<close> the tote
  is hidden and the other three predicates still hold; a maximum of \<open>40\<close> hides it and a
  maximum of \<open>50\<close> does not.\<close>

theorem isVisible_is_conjunction_witness:
  "handleFilterClick ''category'' (Some ''backpack'') ProductFilter_constructor
     = Some (ProductFilter_constructor\<lparr>category := Some ''backpack''\<rparr>)
   \<and> \<not> isVisible (ProductFilter_constructor\<lparr>category := Some ''backpack''\<rparr>) tote
   \<and> material_ok (ProductFilter_constructor\<lparr>category := Some ''backpack''\<rparr>) tote
   \<and> price_ok (ProductFilter_constructor\<lparr>category := Some ''backpack''\<rparr>) tote
   \<and> search_ok (ProductFilter_constructor\<lparr>category := Some ''backpack''\<rparr>) tote
   \<and> \<not> isVisible (handlePriceFilter ''40'' ProductFilter_constructor) tote
   \<and> isVisible (handlePriceFilter ''50'' ProductFilter_constructor) tote
   \<and> isVisible (handleSearch ''TOTE'' ProductFilter_constructor) tote"
proof -
  let ?P = ProductFilter_constructor
  let ?B = "ProductFilter_constructor\<lparr>category := Some ''backpack''\<rparr>"
  note T = isVisible_is_conjunction [of ?P tote]
  have click: "handleFilterClick ''category'' (Some ''backpack'') ?P = Some ?B"
    by (simp add: handleFilterClick_def)
  have base: "category_ok ?P tote" "material_ok ?P tote" "price_ok ?P tote" "search_ok ?P tote"
    by (simp_all add: category_ok_def material_ok_def price_ok_def search_ok_def
        ProductFilter_constructor_def)
  have b: "\<not> category_ok ?B tote"
    by (simp add: category_ok_def tote_def)
  have p40: "\<not> price_ok (handlePriceFilter ''40'' ?P) tote"
    by (simp add: price_ok_def handlePriceFilter_def tote_def parseInt_eval)
  have p50: "price_ok (handlePriceFilter ''50'' ?P) tote"
    by (simp add: price_ok_def handlePriceFilter_def tote_def parseInt_eval)
  have ci: "ci_contains (card_title tote) ''TOTE''"
    by (simp add: ci_contains_def tote_def toLowerCase_def lower_char_def)
  have hidden: "\<not> isVisible ?B tote"
    using isVisible_is_conjunction [of ?B tote, THEN conjunct1] b by simp
  have others: "material_ok ?B tote" "price_ok ?B tote" "search_ok ?B tote"
    using T [THEN conjunct2, THEN conjunct1, rule_format, OF click] base by simp_all
  have v40: "\<not> isVisible (handlePriceFilter ''40'' ?P) tote"
    using isVisible_is_conjunction [of "handlePriceFilter ''40'' ?P" tote, THEN conjunct1] p40
    by simp
  have v50: "isVisible (handlePriceFilter ''50'' ?P) tote"
    using isVisible_is_conjunction [of "handlePriceFilter ''50'' ?P" tote, THEN conjunct1]
      T [THEN conjunct2, THEN conjunct2, THEN conjunct2, THEN conjunct1, rule_format, of "''50''"]
      base p50
    by simp
  have vs: "isVisible (handleSearch ''TOTE'' ?P) tote"
    using isVisible_is_conjunction [of "handleSearch ''TOTE'' ?P" tote, THEN conjunct1]
      T [THEN conjunct2, THEN conjunct2, THEN conjunct2, THEN conjunct2, rule_format, of "''TOTE''"]
      base ci
    by simp
  from click hidden others v40 v50 vs show ?thesis by simp
qed

text \<open>
  Claim C10. When the maximum price has been set through \<^verbatim>\<open>handlePriceFilter\<close> to a value
  that parses to \<open>0\<close>, the price test of \<^verbatim>\<open>applyFilters\<close> lets every card pass whatever
  its price: the card is shown exactly as with no maximum price, that is, exactly when
  the category, material and search predicates hold.
\<close>

theorem maxPrice_zero_is_no_price_filter:
  assumes "parseInt v = Num 0"
  shows "isVisible (handlePriceFilter v pf) pcard = isVisible (pf\<lparr>maxPrice := None\<rparr>) pcard
    \<and> price_ok (handlePriceFilter v pf) pcard
    \<and> (isVisible (handlePriceFilter v pf) pcard \<longleftrightarrow>
         category_ok pf pcard \<and> material_ok pf pcard \<and> search_ok pf pcard)"
  using assms
  by (simp add: isVisible_conj handlePriceFilter_def category_ok_def material_ok_def
      price_ok_def search_ok_def)

text \<open>C10 at a concrete input: the slider at \<^verbatim>\<open>"0"\<close> and a card that costs \<open>999\<close>.\<close>

theorem maxPrice_zero_is_no_price_filter_witness:
  "parseInt ''0'' = Num 0
   \<and> isVisible (handlePriceFilter ''0'' ProductFilter_constructor) (tote\<lparr>card_price := Some ''999''\<rparr>)"
proof -
  let ?c = "tote\<lparr>card_price := Some ''999''\<rparr>"
  have z: "parseInt ''0'' = Num 0" by (simp add: parseInt_eval)
  have "isVisible (handlePriceFilter ''0'' ProductFilter_constructor) ?c \<longleftrightarrow>
          category_ok ProductFilter_constructor ?c \<and> material_ok ProductFilter_constructor ?c
          \<and> search_ok ProductFilter_constructor ?c"
    using maxPrice_zero_is_no_price_filter [OF z] by blast
  moreover have "category_ok ProductFilter_constructor ?c"
    "material_ok ProductFilter_constructor ?c" "search_ok ProductFilter_constructor ?c"
    by (simp_all add: category_ok_def material_ok_def search_ok_def ProductFilter_constructor_def)
  ultimately show ?thesis using z by blast
qed

subsection \<open>ProductComparison: the compare list\<close>

lemma length_filter_neq_distinct:
  "distinct xs \<Longrightarrow> a \<in> set xs \<Longrightarrow> length (filter (\<lambda>i. i \<noteq> a) xs) = length xs - 1"
proof (induction xs)
  case Nil
  then show ?case by simp
next
  case (Cons x xs)
  show ?case
  proof (cases "x = a")
    case True
    with Cons.prems have "a \<notin> set xs" by simp
    then have "filter (\<lambda>i. i \<noteq> a) xs = xs" by (auto simp: filter_id_conv)
    with True show ?thesis by simp
  next
    case False
    with Cons have "length (filter (\<lambda>i. i \<noteq> a) xs) = length xs - 1" "a \<in> set xs" by auto
    moreover from \<open>a \<in> set xs\<close> have "0 < length xs" by (cases xs) auto
    ultimately show ?thesis using False by simp
  qed
qed

lemma compare_inv_removeFromCompare:
  "compare_inv pc \<Longrightarrow> compare_inv (removeFromCompare i pc)"
proof -
  assume inv: "compare_inv pc"
  then have "length (compareList pc) \<le> 3" by (simp add: compare_inv_def)
  then have "length (filter (\<lambda>x. x \<noteq> i) (compareList pc)) \<le> 3"
    by (rule le_trans [OF length_filter_le])
  with inv show ?thesis
    by (simp add: compare_inv_def removeFromCompare_def)
qed

lemma compare_inv_step: "compare_inv pc \<Longrightarrow> compare_inv (compare_step pc opn)"
proof (cases opn)
  case (Add i)
  assume inv: "compare_inv pc"
  show ?thesis
  proof (cases "i \<in> set (compareList pc)")
    case True
    with inv Add show ?thesis
      by (simp add: addToCompare_def compare_inv_removeFromCompare)
  next
    case False
    with inv Add show ?thesis
      by (auto simp: addToCompare_def compare_inv_def)
  qed
next
  case (Remove i)
  assume "compare_inv pc"
  with Remove show ?thesis by (simp add: compare_inv_removeFromCompare)
next
  case Clear
  assume "compare_inv pc"
  with Clear show ?thesis by (simp add: clearCompare_def compare_inv_def)
qed

lemma compare_inv_foldl: "compare_inv pc \<Longrightarrow> compare_inv (foldl compare_step pc ops)"
  by (induction ops arbitrary: pc) (simp_all add: compare_inv_step)

lemma compare_inv_run: "compare_inv (compare_run ops)"
  unfolding compare_run_def
  by (rule compare_inv_foldl) (simp add: compare_inv_def ProductComparison_constructor_def)

text \<open>What the compare list does keep of C8: under every sequence of add, remove and
  clear it never holds more than three ids; an add on a full list leaves it as it was;
  and an add of an id that is present removes that id, one entry less.\<close>

lemma compareList_never_exceeds_three: "length (compareList (compare_run ops)) \<le> 3"
  using compare_inv_run [of ops] by (simp add: compare_inv_def)

lemma addToCompare_full_keeps_list:
  assumes "length (compareList pc) = 3" "maxCompare pc = 3" "d \<notin> set (compareList pc)"
  shows "state_of (addToCompare d pc) = pc"
  using assms by (simp add: addToCompare_def)

lemma addToCompare_present_toggles:
  assumes "compare_inv pc" "a \<in> set (compareList pc)"
  shows "addToCompare a pc = Done (removeFromCompare a pc)"
    and "a \<notin> set (compareList (removeFromCompare a pc))"
    and "length (compareList (removeFromCompare a pc)) = length (compareList pc) - 1"
  using assms
  by (simp_all add: addToCompare_def removeFromCompare_def compare_inv_def
      length_filter_neq_distinct)

lemma toggle_example:
  "compareList (compare_run [Add ''a'', Add ''b'', Add ''c'', Add ''a'']) = [''b'', ''c'']"
  by (simp add: compare_run_def ProductComparison_constructor_def addToCompare_def
      removeFromCompare_def)

text \<open>
  Claim C8, at the input where the code departs from it. After \<^verbatim>\<open>a\<close>, \<^verbatim>\<open>b\<close> and \<^verbatim>\<open>c\<close> have
  been added, adding \<^verbatim>\<open>d\<close> does not return: the branch for a full list calls
  \<^verbatim>\<open>this.showNotification\<close>, which \<^verbatim>\<open>ProductComparison\<close> does not have, and the handler
  ends in a \<^verbatim>\<open>TypeError\<close>. The list itself is left as it was.
\<close>

theorem addToCompare_fourth_throws:
  "compareList (compare_run [Add ''a'', Add ''b'', Add ''c'']) = [''a'', ''b'', ''c'']
   \<and> addToCompare ''d'' (compare_run [Add ''a'', Add ''b'', Add ''c''])
       = Thrown TypeError (compare_run [Add ''a'', Add ''b'', Add ''c''])"
  by (simp add: compare_run_def ProductComparison_constructor_def addToCompare_def)

subsection \<open>ReviewSystem: state after the basic operations\<close>

lemma saveReviews_cases:
  "saveReviews S s =
     (if refuses (localStorage s) (items (localStorage s)) ''bespoke-reviews'' (S (reviews s))
      then Thrown QuotaExceededError s
      else Done (s\<lparr>localStorage :=
             (localStorage s)\<lparr>items := (items (localStorage s))(''bespoke-reviews'' \<mapsto> S (reviews s))\<rparr>\<rparr>))"
  by (simp add: saveReviews_def setItem_def)

lemma reviews_saveReviews [simp]: "reviews (state_of (saveReviews S s)) = reviews s"
  by (simp add: saveReviews_cases)

lemma reviews_showNotification [simp]: "reviews (showNotification m t s) = reviews s"
  by (simp add: showNotification_def)

text \<open>The three ways \<^verbatim>\<open>updateSummary\<close> ends: at once on an empty collection; normally,
  with the class of the stars element gone, while that element is still found; and in a
  \<^verbatim>\<open>TypeError\<close> with the bars untouched once it is not.\<close>

lemma updateSummary_empty: "reviews s = [] \<Longrightarrow> updateSummary average_text s = Done s"
  by (simp add: updateSummary_def)

lemma updateSummary_first:
  assumes "reviews s \<noteq> []" "rating_stars s"
  shows "updateSummary average_text s =
     Done (s\<lparr>summary :=
              \<lparr>rating_number =
                 average_text (foldl (\<lambda>sum r. sum + rating r) 0 (reviews s)) (length (reviews s)),
               rating_count = length (reviews s),
               rating_bar_count = (rating_bar_count (summary s))
                 (1 \<mapsto> length (filter (\<lambda>r. rating r = 1) (reviews s)),
                  2 \<mapsto> length (filter (\<lambda>r. rating r = 2) (reviews s)),
                  3 \<mapsto> length (filter (\<lambda>r. rating r = 3) (reviews s)),
                  4 \<mapsto> length (filter (\<lambda>r. rating r = 4) (reviews s)),
                  5 \<mapsto> length (filter (\<lambda>r. rating r = 5) (reviews s)))\<rparr>,
            rating_stars := False\<rparr>)"
  using assms by (simp add: updateSummary_def Let_def)

lemma updateSummary_again:
  assumes "reviews s \<noteq> []" "\<not> rating_stars s"
  shows "updateSummary average_text s =
     Thrown TypeError
       (s\<lparr>summary := (summary s)
           \<lparr>rating_number :=
              average_text (foldl (\<lambda>sum r. sum + rating r) 0 (reviews s)) (length (reviews s)),
            rating_count := length (reviews s)\<rparr>\<rparr>)"
  using assms by (simp add: updateSummary_def Let_def)

lemma reviews_updateSummary [simp]:
  "reviews (state_of (updateSummary average_text s)) = reviews s"
  by (simp add: updateSummary_def Let_def)

lemma reviews_renderReviews [simp]:
  "reviews (state_of (renderReviews average_text s)) = reviews s"
  by (simp add: renderReviews_def)

lemma reviews_list_updateSummary [simp]:
  "reviews_list (state_of (updateSummary average_text s)) = reviews_list s"
  by (simp add: updateSummary_def Let_def)

lemma reviews_list_renderReviews [simp]:
  "reviews_list (state_of (renderReviews average_text s)) = map createReviewElement (reviews s)"
  by (simp add: renderReviews_def)

lemma reviews_addReview:
  "reviews (state_of (addReview average_text S r s)) = r # reviews s"
proof -
  let ?s1 = "s\<lparr>reviews := r # reviews s\<rparr>"
  show ?thesis
  proof (cases "saveReviews S ?s1")
    case (Thrown e s2)
    with reviews_saveReviews [of S ?s1] show ?thesis by (simp add: addReview_def Let_def)
  next
    case (Done s2)
    with reviews_saveReviews [of S ?s1] have r2: "reviews s2 = r # reviews s" by simp
    show ?thesis
    proof (cases "renderReviews average_text s2")
      case (Thrown e s3)
      with reviews_renderReviews [of average_text s2] r2 Done show ?thesis
        by (simp add: addReview_def Let_def)
    next
      case d3: (Done s3)
      with reviews_renderReviews [of average_text s2] r2 have "reviews s3 = r # reviews s" by simp
      with Done d3 show ?thesis by (simp add: addReview_def Let_def)
    qed
  qed
qed

text \<open>After \<^verbatim>\<open>renderReviews\<close> on a collection that is not empty the stars element is not
  found any more, however the call ended.\<close>

lemma rating_stars_updateSummary:
  "reviews s \<noteq> [] \<Longrightarrow> \<not> rating_stars (state_of (updateSummary average_text s))"
  by (simp add: updateSummary_def Let_def)

lemma addReview_accepted_throws:
  assumes "\<not> refuses (localStorage s) (items (localStorage s)) ''bespoke-reviews''
             (S (r # reviews s))"
  shows "error_of (addReview average_text S r s) = Some TypeError"
proof -
  let ?s2 = "s\<lparr>reviews := r # reviews s,
      localStorage := (localStorage s)\<lparr>items :=
        (items (localStorage s))(''bespoke-reviews'' \<mapsto> S (r # reviews s))\<rparr>\<rparr>"
  let ?s2' = "?s2\<lparr>reviews_list := map createReviewElement (reviews ?s2)\<rparr>"
  have save: "saveReviews S (s\<lparr>reviews := r # reviews s\<rparr>) = Done ?s2"
    using assms by (simp add: saveReviews_cases)
  have ne: "reviews ?s2' \<noteq> []" by simp
  show ?thesis
  proof (cases "rating_stars s")
    case True
    then have st: "rating_stars ?s2'" by simp
    have "renderReviews average_text ?s2 = updateSummary average_text ?s2'"
      by (simp add: renderReviews_def)
    moreover obtain s3 where s3: "updateSummary average_text ?s2' = Done s3"
      using updateSummary_first [OF ne st] by blast
    moreover have "reviews s3 = reviews ?s2'"
      by (metis reviews_updateSummary s3 state_of.simps(1))
    then have "reviews s3 \<noteq> []" by simp
    moreover have "\<not> rating_stars s3"
      by (metis rating_stars_updateSummary ne s3 state_of.simps(1))
    ultimately have "error_of (updateSummary average_text s3) = Some TypeError"
      "renderReviews average_text ?s2 = Done s3"
      by (simp_all add: updateSummary_again)
    then show ?thesis
      using save by (simp add: addReview_def Let_def)
  next
    case False
    then have st: "\<not> rating_stars ?s2'" by simp
    have "error_of (updateSummary average_text ?s2') = Some TypeError"
      by (subst updateSummary_again [OF ne st]) simp
    then have "error_of (renderReviews average_text ?s2) = Some TypeError"
      unfolding renderReviews_def .
    then show ?thesis
      using save by (cases "renderReviews average_text ?s2") (simp_all add: addReview_def Let_def)
  qed
qed

text \<open>So a submission that is accepted and stored never ends normally: the success
  notification is not shown and the modal is not removed.\<close>

lemma notifications_addReview:
  "notifications (state_of (addReview average_text S r s)) = notifications s"
  by (simp add: addReview_def renderReviews_def updateSummary_def saveReviews_cases Let_def
      split: outcome.splits)

lemma submitReview_accepted_throws:
  assumes "parseInt (ToString_attr (form_rating form)) = Num n" "n \<noteq> 0"
    and "\<not> refuses (localStorage s) (items (localStorage s)) ''bespoke-reviews''
           (S (review_of_form now isoDate n form # reviews s))"
  shows "error_of (submitReview average_text S now isoDate form s) = Some TypeError"
    and "notifications (state_of (submitReview average_text S now isoDate form s))
           = notifications s"
proof -
  let ?r = "review_of_form now isoDate n form"
  have sub: "submitReview average_text S now isoDate form s =
     (case addReview average_text S ?r s of
        Thrown e s1 \<Rightarrow> Thrown e s1
      | Done s1 \<Rightarrow> Done (showNotification ''Thank you for your review!'' ''success'' s1))"
    using assms(1,2) by (simp add: submitReview_def review_of_form_def Let_def)
  have e: "error_of (addReview average_text S ?r s) = Some TypeError"
    using assms(3) by (rule addReview_accepted_throws)
  then obtain s1 where t: "addReview average_text S ?r s = Thrown TypeError s1"
    by (cases "addReview average_text S ?r s") auto
  show "error_of (submitReview average_text S now isoDate form s) = Some TypeError"
    unfolding sub t by simp
  show "notifications (state_of (submitReview average_text S now isoDate form s))
           = notifications s"
    unfolding sub using notifications_addReview [of average_text S ?r s] t by simp
qed

subsection \<open>ReviewSystem: loading\<close>

text \<open>
  Claim C1, amended. \<^verbatim>\<open>loadReviews\<close> returns the empty sequence when nothing is stored
  under \<^verbatim>\<open>bespoke-reviews\<close> or the stored text is empty. For every other stored text it
  returns what \<^verbatim>\<open>JSON.parse\<close> returns, and when \<^verbatim>\<open>JSON.parse\<close> raises an error on a
  malformed text, that error reaches the caller: \<^verbatim>\<open>loadReviews\<close> raises it and the
  constructor of the review system fails with it.
\<close>

theorem loadReviews_result:
  "(getItem ls ''bespoke-reviews'' = None \<longrightarrow> loadReviews P ls = Inr [])
   \<and> (getItem ls ''bespoke-reviews'' = Some [] \<longrightarrow> loadReviews P ls = Inr [])
   \<and> (\<forall>saved. getItem ls ''bespoke-reviews'' = Some saved \<and> saved \<noteq> [] \<longrightarrow>
         loadReviews P ls = P saved)
   \<and> (\<forall>saved e. getItem ls ''bespoke-reviews'' = Some saved \<and> saved \<noteq> [] \<and> P saved = Inl e \<longrightarrow>
         loadReviews P ls = Inl e \<and> ReviewSystem_constructor average_text P ls notes = Inl e)"
  by (simp add: loadReviews_def ReviewSystem_constructor_def)

text \<open>
  Claim C1, as the specification states it, fails: the stored text \<^verbatim>\<open>{\<close> is not a review
  collection, and \<^verbatim>\<open>loadReviews\<close> does not return the empty sequence for it but raises
  the \<^verbatim>\<open>SyntaxError\<close> of \<^verbatim>\<open>JSON.parse\<close>.
\<close>

theorem loadReviews_malformed_counterexample:
  "JSON_parse ''{'' = Inl SyntaxError
   \<and> loadReviews JSON_parse (empty_store\<lparr>items := [''bespoke-reviews'' \<mapsto> ''{'']\<rparr>)
       = Inl SyntaxError
   \<and> loadReviews JSON_parse (empty_store\<lparr>items := [''bespoke-reviews'' \<mapsto> ''{'']\<rparr>)
       \<noteq> Inr []"
  by (simp add: loadReviews_def getItem_def empty_store_def JSON_parse_def p_array_def)

text \<open>The amended C1 at concrete stores: an empty store, a store with the empty text,
  and a store with a text that is not JSON.\<close>

theorem loadReviews_result_witness:
  "loadReviews JSON_parse empty_store = Inr []
   \<and> loadReviews JSON_parse (empty_store\<lparr>items := [''bespoke-reviews'' \<mapsto> '''']\<rparr>) = Inr []
   \<and> ReviewSystem_constructor toFixed1_of_quotient JSON_parse
        (empty_store\<lparr>items := [''bespoke-reviews'' \<mapsto> ''not json'']\<rparr>) [] = Inl SyntaxError"
proof -
  have a: "getItem empty_store ''bespoke-reviews'' = None"
    by (simp add: getItem_def empty_store_def)
  have b: "getItem (empty_store\<lparr>items := [''bespoke-reviews'' \<mapsto> '''']\<rparr>) ''bespoke-reviews'' = Some []"
    by (simp add: getItem_def)
  have c: "getItem (empty_store\<lparr>items := [''bespoke-reviews'' \<mapsto> ''not json'']\<rparr>) ''bespoke-reviews''
            = Some ''not json'' \<and> ''not json'' \<noteq> [] \<and> JSON_parse ''not json'' = Inl SyntaxError"
    by (simp add: getItem_def JSON_parse_def p_array_def)
  show ?thesis
    using a b c
      loadReviews_result [of empty_store JSON_parse]
      loadReviews_result [of "empty_store\<lparr>items := [''bespoke-reviews'' \<mapsto> '''']\<rparr>" JSON_parse]
      loadReviews_result [of "empty_store\<lparr>items := [''bespoke-reviews'' \<mapsto> ''not json'']\<rparr>" JSON_parse
        toFixed1_of_quotient "[]"]
    by blast
qed

subsection \<open>ReviewSystem: the summary block\<close>

text \<open>The text that \<^verbatim>\<open>toFixed(1)\<close> gives for some averages. The quotient \<open>27 / 20\<close> is the
  double just below \<open>1.35\<close> and is written \<^verbatim>\<open>1.4\<close> only because the double is formatted
  from its exact value, \<open>1.350000000000000088817841970012523\<close>.\<close>

lemma toFixed1_of_quotient_examples:
  "toFixed1_of_quotient 9 2 = ''4.5''"
  "toFixed1_of_quotient 13 3 = ''4.3''"
  "toFixed1_of_quotient 27 20 = ''1.4''"
  "toFixed1_of_quotient 5 1 = ''5.0''"
  by (simp_all add: toFixed1_of_quotient_def nearest_double_def nearest_tenths_def
      tenths_text_def bit_length.simps digits.simps digit_char_def Let_def)

text \<open>
  Claim C2, at the input where the code departs from it. The claim is that the summary
  of every collection has the number of reviews, their average, and for each star value
  from 1 to 5 the number of reviews with that rating, the five numbers adding up to the
  number of reviews. The summary of the page is what \<^verbatim>\<open>updateSummary\<close> writes, and it
  writes all of it only once (lemma \<open>updateSummary_first\<close>): it takes the element of
  class \<^verbatim>\<open>rating-stars\<close> for a \<^verbatim>\<open>StarRating\<close>, whose \<^verbatim>\<open>render\<close> replaces the class, so
  that every later call on a collection that is not empty writes the average and the
  number of reviews, finds no such element and ends in a \<^verbatim>\<open>TypeError\<close> before the bars
  (lemma \<open>updateSummary_again\<close>). After Bo's four stars and then Ana's five stars are
  submitted on a first visit, the collection is Ana's review and Bo's, the summary says
  2 reviews with the average of \<open>9 / 2\<close>, and the bars still say what they said after
  Bo's review alone: one review with four stars and none with five.
\<close>

theorem histogram_stale_after_second_submit:
  "reviews (state_of (submitReview average_text JSON_stringify 1730000000000
       ''2024-10-27T03:33:20.000Z'' ana_form
       (state_of (submitReview average_text JSON_stringify 1720000000000
          ''2024-07-03T09:46:40.000Z'' bo_form first_visit)))) = [ana_review, bo_review]
   \<and> rating_count (summary (state_of (submitReview average_text JSON_stringify 1730000000000
       ''2024-10-27T03:33:20.000Z'' ana_form
       (state_of (submitReview average_text JSON_stringify 1720000000000
          ''2024-07-03T09:46:40.000Z'' bo_form first_visit))))) = 2
   \<and> rating_number (summary (state_of (submitReview average_text JSON_stringify
       1730000000000 ''2024-10-27T03:33:20.000Z'' ana_form
       (state_of (submitReview average_text JSON_stringify 1720000000000
          ''2024-07-03T09:46:40.000Z'' bo_form first_visit))))) = average_text 9 2
   \<and> map (bar_count (summary (state_of (submitReview average_text JSON_stringify 1730000000000
       ''2024-10-27T03:33:20.000Z'' ana_form
       (state_of (submitReview average_text JSON_stringify 1720000000000
          ''2024-07-03T09:46:40.000Z'' bo_form first_visit)))))) [1, 2, 3, 4, 5]
       = [0, 0, 0, 1, 0]
   \<and> error_of (submitReview average_text JSON_stringify 1730000000000
       ''2024-10-27T03:33:20.000Z'' ana_form
       (state_of (submitReview average_text JSON_stringify 1720000000000
          ''2024-07-03T09:46:40.000Z'' bo_form first_visit))) = Some TypeError"
  by (simp add: submitReview_def parseInt_eval ana_form_def bo_form_def first_visit_def
      empty_store_def addReview_def saveReviews_cases renderReviews_def updateSummary_def
      createReviewSection_def bar_count_def ana_review_def bo_review_def numeral_2_eq_2)

subsection \<open>ReviewSystem: submitting a review\<close>

lemma submitReview_accepts:
  assumes "parseInt (ToString_attr (form_rating form)) = Num n" "n \<noteq> 0"
  shows "reviews (state_of (submitReview average_text S now isoDate form s))
           = review_of_form now isoDate n form # reviews s"
proof -
  have "reviews (state_of (addReview average_text S (review_of_form now isoDate n form) s))
          = review_of_form now isoDate n form # reviews s"
    by (rule reviews_addReview)
  then show ?thesis
    using assms
    by (cases "addReview average_text S (review_of_form now isoDate n form) s")
      (simp_all add: submitReview_def review_of_form_def Let_def)
qed

lemma submitReview_no_rating:
  assumes "\<not> truthy (parseInt (ToString_attr (form_rating form)))"
  shows "submitReview average_text S now isoDate form s
           = Done (showNotification ''Please select a rating'' ''error'' s)"
  using assms
  by (cases "parseInt (ToString_attr (form_rating form))") (simp_all add: submitReview_def)

text \<open>What the star widget of the form writes is read back by \<^verbatim>\<open>parseInt\<close> as a number
  from 1 to 5; while no star has been clicked the attribute is absent and \<^verbatim>\<open>parseInt\<close>
  gives \<^verbatim>\<open>NaN\<close>.\<close>

lemma star_widget_rating_parse:
  assumes "star_widget_rating (Some t)"
  shows "\<exists>n. parseInt t = Num n \<and> 1 \<le> n \<and> n \<le> 5"
proof -
  from assms obtain i where "i \<in> {1, 2, 3, 4, 5 :: int}" "t = Number_toString i"
    by (auto simp: star_widget_rating_def)
  then show ?thesis
    using parseInt_Number_toString [of i] by auto
qed

lemma parseInt_undefined: "parseInt (ToString_attr None) = NaN"
  by (simp add: parseInt_eval)




subsection \<open>ReviewSystem: marking a review helpful\<close>

lemma find_review_id_None:
  "find (\<lambda>r. review_id r = i) rs = None \<longleftrightarrow> i \<notin> review_id ` set rs"
  by (auto simp: find_None_iff)

lemma find_bump_helpful:
  "find (\<lambda>r. review_id r = i) rs = Some r \<Longrightarrow>
   find (\<lambda>r. review_id r = i) (bump_helpful i rs) = Some (r\<lparr>helpful := helpful r + 1\<rparr>)"
  by (induction rs) (auto split: if_splits)

lemma length_bump_helpful: "length (bump_helpful i rs) = length rs"
  by (induction rs) auto

lemma bump_helpful_split:
  "find (\<lambda>r. review_id r = i) rs = Some r \<Longrightarrow>
   \<exists>before after. rs = before @ r # after \<and> (\<forall>x\<in>set before. review_id x \<noteq> i)
     \<and> bump_helpful i rs = before @ r\<lparr>helpful := helpful r + 1\<rparr> # after"
proof (induction rs)
  case Nil
  then show ?case by simp
next
  case (Cons x xs)
  show ?case
  proof (cases "review_id x = i")
    case True
    with Cons.prems have "x = r" by simp
    with True show ?thesis by (intro exI [of _ "[]"] exI [of _ xs]) simp
  next
    case False
    with Cons obtain before after where
      "xs = before @ r # after" "\<forall>y\<in>set before. review_id y \<noteq> i"
      "bump_helpful i xs = before @ r\<lparr>helpful := helpful r + 1\<rparr> # after"
      by auto
    with False show ?thesis
      by (intro exI [of _ "x # before"] exI [of _ after]) simp
  qed
qed

lemma reviews_markHelpful:
  "find (\<lambda>r. review_id r = i) (reviews s) = Some r \<Longrightarrow>
   reviews (state_of (markHelpful S i s)) = bump_helpful i (reviews s)"
  by (simp add: markHelpful_def saveReviews_cases showNotification_def Let_def)

text \<open>
  Claim C4, amended. For an id that no review of the collection has, \<^verbatim>\<open>markHelpful\<close>
  returns normally and changes nothing: no error is raised or notified, nothing is
  stored, and the collection is as before. For an id that is present, the first review
  with that id gets its \<^verbatim>\<open>helpful\<close> count increased by one and the rest of the
  collection is unchanged; nothing guards against repetition, so a second call
  increases the count again.
\<close>

theorem markHelpful_behaviour:
  "(i \<notin> review_id ` set (reviews s) \<longrightarrow> markHelpful S i s = Done s)
   \<and> (\<forall>r. find (\<lambda>r. review_id r = i) (reviews s) = Some r \<longrightarrow>
        reviews (state_of (markHelpful S i s)) = bump_helpful i (reviews s)
        \<and> length (reviews (state_of (markHelpful S i s))) = length (reviews s)
        \<and> find (\<lambda>r. review_id r = i) (reviews (state_of (markHelpful S i s)))
            = Some (r\<lparr>helpful := helpful r + 1\<rparr>)
        \<and> find (\<lambda>r. review_id r = i)
              (reviews (state_of (markHelpful S i (state_of (markHelpful S i s)))))
            = Some (r\<lparr>helpful := helpful r + 2\<rparr>))"
proof (intro conjI impI allI)
  assume "i \<notin> review_id ` set (reviews s)"
  then have "find (\<lambda>r. review_id r = i) (reviews s) = None"
    by (simp add: find_review_id_None)
  then show "markHelpful S i s = Done s" by (simp add: markHelpful_def)
next
  fix r
  assume f: "find (\<lambda>r. review_id r = i) (reviews s) = Some r"
  let ?s1 = "state_of (markHelpful S i s)"
  show r1: "reviews ?s1 = bump_helpful i (reviews s)"
    using f by (rule reviews_markHelpful)
  then show "length (reviews ?s1) = length (reviews s)"
    by (simp add: length_bump_helpful)
  show f1: "find (\<lambda>r. review_id r = i) (reviews ?s1) = Some (r\<lparr>helpful := helpful r + 1\<rparr>)"
    unfolding r1 using f by (rule find_bump_helpful)
  have "reviews (state_of (markHelpful S i ?s1)) = bump_helpful i (reviews ?s1)"
    using f1 by (rule reviews_markHelpful)
  moreover have "find (\<lambda>r. review_id r = i) (bump_helpful i (reviews ?s1))
      = Some (r\<lparr>helpful := helpful r + 1\<rparr>\<lparr>helpful := helpful (r\<lparr>helpful := helpful r + 1\<rparr>) + 1\<rparr>)"
    using f1 by (rule find_bump_helpful)
  ultimately show "find (\<lambda>r. review_id r = i)
              (reviews (state_of (markHelpful S i ?s1)))
            = Some (r\<lparr>helpful := helpful r + 2\<rparr>)"
    by simp
qed

text \<open>
  Claim C4, as the specification states it, fails: on the unknown id \<open>42\<close> the call does
  not fail; it ends normally in the very state it started from, without a notification.
\<close>

theorem markHelpful_unknown_counterexample:
  "markHelpful JSON_stringify 42 (first_visit\<lparr>reviews := [ana_review]\<rparr>)
     = Done (first_visit\<lparr>reviews := [ana_review]\<rparr>)"
  by (simp add: markHelpful_def first_visit_def ana_review_def)

text \<open>The amended C4 at a concrete page with Ana's review: an unknown id, the known id
  once, and the known id twice.\<close>

theorem markHelpful_behaviour_witness:
  "markHelpful JSON_stringify 42 (first_visit\<lparr>reviews := [ana_review]\<rparr>)
     = Done (first_visit\<lparr>reviews := [ana_review]\<rparr>)
   \<and> reviews (state_of (markHelpful JSON_stringify 1730000000000
        (first_visit\<lparr>reviews := [ana_review]\<rparr>))) = [ana_review\<lparr>helpful := 1\<rparr>]
   \<and> find (\<lambda>r. review_id r = 1730000000000)
        (reviews (state_of (markHelpful JSON_stringify 1730000000000
           (state_of (markHelpful JSON_stringify 1730000000000
              (first_visit\<lparr>reviews := [ana_review]\<rparr>))))))
       = Some (ana_review\<lparr>helpful := 2\<rparr>)"
proof -
  let ?s = "first_visit\<lparr>reviews := [ana_review]\<rparr>"
  have a: "42 \<notin> review_id ` set (reviews ?s)" by (simp add: ana_review_def)
  have b: "find (\<lambda>r. review_id r = 1730000000000) (reviews ?s) = Some ana_review"
    by (simp add: ana_review_def)
  have c: "bump_helpful 1730000000000 (reviews ?s) = [ana_review\<lparr>helpful := 1\<rparr>]"
    "ana_review\<lparr>helpful := helpful ana_review + 2\<rparr> = ana_review\<lparr>helpful := 2\<rparr>"
    by (simp_all add: ana_review_def)
  show ?thesis
    using a b c markHelpful_behaviour [of 42 ?s JSON_stringify]
      markHelpful_behaviour [of 1730000000000 ?s JSON_stringify]
    by simp
qed

subsection \<open>The reference codec reads back what it writes\<close>

text \<open>Each part of the reader undoes the matching part of the writer, whatever text
  follows; the parts compose to the whole collection.\<close>

lemma expect_append: "expect lit (lit @ s) = Some ((), s)"
proof -
  have "starts_with (lit @ s) lit" by (induction lit) simp_all
  then show ?thesis by (simp add: expect_def)
qed

lemma expect_char: "expect [c] (c # s) = Some ((), s)"
  using expect_append [of "[c]" s] by simp

lemma p_member_json_member: "p_member k p (json_member k v @ rest) = p (v @ rest)"
proof -
  have "json_member k v @ rest = (QuoteJSONString k @ '':'') @ (v @ rest)"
    by (simp add: json_member_def)
  then show ?thesis by (simp only: p_member_def expect_append) simp
qed

lemma takeWhile_digits: "\<not> is_radix_digit 10 c \<Longrightarrow>
    takeWhile (is_radix_digit 10) (digits n @ c # rest) = digits n"
  using digits_dec dec_char_facts(6) by (simp add: takeWhile_append2)

lemma dropWhile_digits: "\<not> is_radix_digit 10 c \<Longrightarrow>
    dropWhile (is_radix_digit 10) (digits n @ c # rest) = c # rest"
  using digits_dec dec_char_facts(6) by (simp add: dropWhile_append2)

lemma p_digits_digits:
  "\<not> is_radix_digit 10 c \<Longrightarrow> p_digits (digits n @ c # rest) = Some (int n, c # rest)"
  by (simp add: p_digits_def takeWhile_digits dropWhile_digits digits_nonempty
      radix_value_digits Let_def)

lemma digits_Cons: "\<exists>d ds. digits n = d # ds \<and> dec_char d"
proof (cases "digits n")
  case Nil
  with digits_nonempty show ?thesis by simp
next
  case (Cons d ds)
  with digits_dec [of d n] show ?thesis by simp
qed

lemma p_number_Number_toString:
  assumes "\<not> is_radix_digit 10 c"
  shows "p_number (Number_toString n @ c # rest) = Some (n, c # rest)"
proof (cases "n < 0")
  case True
  then show ?thesis
    using p_digits_digits [OF assms, of "nat (- n)" rest]
    by (simp add: Number_toString_def p_number_def)
next
  case False
  obtain d ds where d: "digits (nat n) = d # ds" "dec_char d"
    using digits_Cons by blast
  have "p_number (digits (nat n) @ c # rest) = p_digits (digits (nat n) @ c # rest)"
    using d dec_char_facts(2) [OF d(2)] by (simp add: p_number_def)
  with False show ?thesis
    using p_digits_digits [OF assms, of "nat n" rest]
    by (simp add: Number_toString_def)
qed

lemma p_bool_stringify_bool: "p_bool (stringify_bool b @ rest) = Some (b, rest)"
  by (cases b) (simp_all add: p_bool_def stringify_bool_def)

lemma below_sixteen:
  "(d :: nat) < 16 \<Longrightarrow>
   d = 0 \<or> d = 1 \<or> d = 2 \<or> d = 3 \<or> d = 4 \<or> d = 5 \<or> d = 6 \<or> d = 7 \<or> d = 8 \<or> d = 9
   \<or> d = 10 \<or> d = 11 \<or> d = 12 \<or> d = 13 \<or> d = 14 \<or> d = 15"
  by arith

lemma digit_val_hex_char: "d < 16 \<Longrightarrow> digit_val (hex_char d) = Some d"
  using below_sixteen [of d] by (auto simp: hex_char_def digit_val_def)

lemma hex4_hex_char:
  assumes "k < 256"
  shows "hex4 [CHR ''0'', CHR ''0'', hex_char (k div 16), hex_char (k mod 16)] = Some (char_of k)"
proof -
  have hi: "k div 16 < 16" using assms by simp
  have lo: "k mod 16 < 16" by simp
  have z: "digit_val (CHR ''0'') = Some 0" by (simp add: digit_val_def)
  have v: "radix_value 16 [CHR ''0'', CHR ''0'', hex_char (k div 16), hex_char (k mod 16)] = k"
    by (simp add: radix_value_def z digit_val_hex_char [OF hi] digit_val_hex_char [OF lo])
  have d: "list_all (is_radix_digit 16)
      [CHR ''0'', CHR ''0'', hex_char (k div 16), hex_char (k mod 16)]"
    using hi by (simp add: is_radix_digit_def z digit_val_hex_char [OF hi] digit_val_hex_char [OF lo])
  show ?thesis
    unfolding hex4_def v using d assms by simp
qed

lemma p_chars_quote_char:
  "p_chars (quote_char c @ tail) = map_option (\<lambda>(cs, rest). (c # cs, rest)) (p_chars tail)"
proof -
  consider (named) "c = CHR 0x08 \<or> c = CHR 0x09 \<or> c = CHR 0x0A \<or> c = CHR 0x0C \<or> c = CHR 0x0D
      \<or> c = dquote \<or> c = backslash"
    | (ctl) "c \<noteq> CHR 0x08" "c \<noteq> CHR 0x09" "c \<noteq> CHR 0x0A" "c \<noteq> CHR 0x0C" "c \<noteq> CHR 0x0D"
        "c \<noteq> dquote" "c \<noteq> backslash" "(of_char c :: nat) < 32"
    | (plain) "c \<noteq> CHR 0x08" "c \<noteq> CHR 0x09" "c \<noteq> CHR 0x0A" "c \<noteq> CHR 0x0C" "c \<noteq> CHR 0x0D"
        "c \<noteq> dquote" "c \<noteq> backslash" "\<not> (of_char c :: nat) < 32"
    by blast
  then show ?thesis
  proof cases
    case named
    then show ?thesis
      by (elim disjE) (simp_all add: quote_char_def unescape_def dquote_def backslash_def)
  next
    case ctl
    have k: "(of_char c :: nat) < 256" using ctl(8) by simp
    have q: "quote_char c = [backslash, CHR ''u'', CHR ''0'', CHR ''0'',
         hex_char ((of_char c :: nat) div 16), hex_char ((of_char c :: nat) mod 16)]"
      using ctl by (simp add: quote_char_def)
    show ?thesis
      unfolding q using hex4_hex_char [OF k]
      by (simp add: dquote_def backslash_def)
  next
    case plain
    then show ?thesis by (simp add: quote_char_def)
  qed
qed

lemma p_chars_quoted:
  "p_chars (concat (map quote_char s) @ dquote # rest) = Some (s, rest)"
  by (induction s) (simp_all add: p_chars_quote_char)

lemma p_string_QuoteJSONString: "p_string (QuoteJSONString s @ rest) = Some (s, rest)"
  by (simp add: p_string_def QuoteJSONString_def p_chars_quoted)

lemma p_elems_join:
  assumes "\<And>x tail. x \<in> set xs \<Longrightarrow> p (enc x @ tail) = Some (x, tail)"
    and "xs \<noteq> []" and "length xs \<le> fuel"
  shows "p_elems fuel p (join '','' (map enc xs) @ CHR '']'' # rest) = Some (xs, rest)"
  using assms
proof (induction xs arbitrary: fuel)
  case Nil
  then show ?case by simp
next
  case (Cons x xs)
  from Cons.prems(3) obtain f where fuel: "fuel = Suc f" "length xs \<le> f"
    by (cases fuel) auto
  have px: "\<And>tail. p (enc x @ tail) = Some (x, tail)" using Cons.prems(1) by simp
  show ?case
  proof (cases xs)
    case Nil
    then show ?thesis by (simp add: fuel px)
  next
    case (Cons y ys)
    have "p_elems f p (join '','' (map enc xs) @ CHR '']'' # rest) = Some (xs, rest)"
      using Cons.IH [of f] Cons.prems(1) fuel(2) Cons by simp
    then show ?thesis
      using Cons by (simp add: fuel px)
  qed
qed

lemma length_join:
  assumes "\<And>x. x \<in> set xs \<Longrightarrow> enc x \<noteq> []"
  shows "length xs \<le> length (join sep (map enc xs))"
  using assms
proof (induction xs)
  case Nil
  then show ?case by simp
next
  case (Cons x xs)
  then have x: "1 \<le> length (enc x)" by (cases "enc x") auto
  show ?case
  proof (cases xs)
    case Nil
    with x show ?thesis by simp
  next
    case (Cons y ys)
    with Cons.IH Cons.prems x show ?thesis by simp
  qed
qed

lemma p_array_join:
  assumes elem: "\<And>x tail. x \<in> set xs \<Longrightarrow> p (enc x @ tail) = Some (x, tail)"
    and hd: "\<And>x. x \<in> set xs \<Longrightarrow> \<exists>c cs. enc x = c # cs \<and> c \<noteq> CHR '']''"
  shows "p_array p (CHR ''['' # join '','' (map enc xs) @ CHR '']'' # rest) = Some (xs, rest)"
proof (cases xs)
  case Nil
  then show ?thesis by (simp add: p_array_def)
next
  case (Cons x ys)
  let ?body = "join '','' (map enc xs) @ CHR '']'' # rest"
  from hd [of x] Cons obtain c cs where c: "enc x = c # cs" "c \<noteq> CHR '']''" by auto
  have "\<exists>cs'. join '','' (map enc xs) = c # cs'"
    using Cons c(1) by (cases ys) simp_all
  then obtain cs' where b: "?body = c # cs' @ CHR '']'' # rest" by auto
  have ne: "\<And>x. x \<in> set xs \<Longrightarrow> enc x \<noteq> []" using hd by fastforce
  have "length xs \<le> length (join '','' (map enc xs))" using ne by (rule length_join)
  then have fuel: "length xs \<le> length ?body" by simp
  have "p_array p (CHR ''['' # ?body) = p_elems (length ?body) p ?body"
    by (simp add: p_array_def b c(2))
  also have "\<dots> = Some (xs, rest)"
  proof (rule p_elems_join)
    fix y tail
    assume "y \<in> set xs"
    then show "p (enc y @ tail) = Some (y, tail)" by (rule elem)
  next
    show "xs \<noteq> []" using Cons by simp
  next
    show "length xs \<le> length ?body" by (rule fuel)
  qed
  finally show ?thesis .
qed

lemma QuoteJSONString_Cons: "\<exists>cs. QuoteJSONString s = dquote # cs"
  by (simp add: QuoteJSONString_def)

lemma p_array_strings:
  "p_array p_string (stringify_strings xs @ rest) = Some (xs, rest)"
proof -
  have "p_array p_string (CHR ''['' # join '','' (map QuoteJSONString xs) @ CHR '']'' # rest)
      = Some (xs, rest)"
  proof (rule p_array_join)
    fix x tail
    show "p_string (QuoteJSONString x @ tail) = Some (x, tail)"
      by (rule p_string_QuoteJSONString)
  next
    fix x
    show "\<exists>c cs. QuoteJSONString x = c # cs \<and> c \<noteq> CHR '']''"
      using QuoteJSONString_Cons [of x] by (auto simp: dquote_def)
  qed
  then show ?thesis by (simp add: stringify_strings_def)
qed

lemma comma_not_digit: "\<not> is_radix_digit 10 (CHR '','')"
  by (simp add: is_radix_digit_def digit_val_def)

lemma p_member_number:
  "p_member k p_number (json_member k (Number_toString n) @ CHR '','' # rest)
     = Some (n, CHR '','' # rest)"
  by (simp add: p_member_json_member p_number_Number_toString comma_not_digit)

lemma p_member_string:
  "p_member k p_string (json_member k (QuoteJSONString s) @ rest) = Some (s, rest)"
  by (simp add: p_member_json_member p_string_QuoteJSONString)

lemma p_member_bool:
  "p_member k p_bool (json_member k (stringify_bool b) @ rest) = Some (b, rest)"
  by (simp add: p_member_json_member p_bool_stringify_bool)

lemma p_member_strings:
  "p_member k (p_array p_string) (json_member k (stringify_strings xs) @ rest) = Some (xs, rest)"
  by (simp add: p_member_json_member p_array_strings)

lemma p_review_stringify_review: "p_review (stringify_review r @ rest) = Some (r, rest)"
  by (cases r)
    (simp add: p_review_def stringify_review_def expect_char p_member_number p_member_string
      p_member_bool p_member_strings)

lemma stringify_review_Cons: "\<exists>cs. stringify_review r = CHR ''{'' # cs"
  by (simp add: stringify_review_def)

lemma reference_codec_roundtrip:
  "JSON_parse (JSON_stringify X) = Inr X" "JSON_stringify X \<noteq> []"
proof -
  have "p_array p_review (CHR ''['' # join '','' (map stringify_review X) @ CHR '']'' # [])
      = Some (X, [])"
  proof (rule p_array_join)
    fix x tail
    show "p_review (stringify_review x @ tail) = Some (x, tail)"
      by (rule p_review_stringify_review)
  next
    fix x
    show "\<exists>c cs. stringify_review x = c # cs \<and> c \<noteq> CHR '']''"
      using stringify_review_Cons [of x] by auto
  qed
  then show "JSON_parse (JSON_stringify X) = Inr X"
    by (simp add: JSON_parse_def JSON_stringify_def)
  show "JSON_stringify X \<noteq> []" by (simp add: JSON_stringify_def)
qed

subsection \<open>ReviewSystem: saving and loading\<close>

lemma getItem_after_save:
  assumes "saveReviews S s = Done s'"
  shows "getItem (localStorage s') ''bespoke-reviews'' = Some (S (reviews s))"
proof -
  from assms have "s' = s\<lparr>localStorage :=
      (localStorage s)\<lparr>items := (items (localStorage s))(''bespoke-reviews'' \<mapsto> S (reviews s))\<rparr>\<rparr>"
    by (simp add: saveReviews_cases split: if_splits)
  then show ?thesis by (simp add: getItem_def)
qed

text \<open>
  Claim C7. Loading right after a save that the store accepted returns the collection
  that was saved: for every collection that \<^verbatim>\<open>JSON.stringify\<close> and \<^verbatim>\<open>JSON.parse\<close> carry
  intact (its serialisation is a non-empty text that parses back to it), whatever the
  two functions are; and, with the reference codec, for every collection of reviews.
\<close>

theorem save_then_load:
  "(saveReviews S s = Done s' \<and> P (S (reviews s)) = Inr (reviews s) \<and> S (reviews s) \<noteq> []
      \<longrightarrow> loadReviews P (localStorage s') = Inr (reviews s))
   \<and> (saveReviews JSON_stringify s = Done s''
      \<longrightarrow> loadReviews JSON_parse (localStorage s'') = Inr (reviews s))"
proof (intro conjI impI)
  assume a: "saveReviews S s = Done s' \<and> P (S (reviews s)) = Inr (reviews s) \<and> S (reviews s) \<noteq> []"
  then have "getItem (localStorage s') ''bespoke-reviews'' = Some (S (reviews s))"
    using getItem_after_save by blast
  with a show "loadReviews P (localStorage s') = Inr (reviews s)"
    by (simp add: loadReviews_def)
next
  assume "saveReviews JSON_stringify s = Done s''"
  then have "getItem (localStorage s'') ''bespoke-reviews'' = Some (JSON_stringify (reviews s))"
    by (rule getItem_after_save)
  then show "loadReviews JSON_parse (localStorage s'') = Inr (reviews s)"
    by (simp add: loadReviews_def reference_codec_roundtrip)
qed

text \<open>C7 at a concrete input: the collection with Ana's review is saved on a first
  visit and loaded again.\<close>

theorem save_then_load_witness:
  "saveReviews JSON_stringify (first_visit\<lparr>reviews := [ana_review]\<rparr>)
     = Done (first_visit\<lparr>reviews := [ana_review],
         localStorage := empty_store\<lparr>items :=
           [''bespoke-reviews'' \<mapsto> JSON_stringify [ana_review]]\<rparr>\<rparr>)
   \<and> loadReviews JSON_parse (empty_store\<lparr>items :=
           [''bespoke-reviews'' \<mapsto> JSON_stringify [ana_review]]\<rparr>) = Inr [ana_review]"
proof -
  let ?s = "first_visit\<lparr>reviews := [ana_review]\<rparr>"
  let ?s' = "first_visit\<lparr>reviews := [ana_review],
         localStorage := empty_store\<lparr>items :=
           [''bespoke-reviews'' \<mapsto> JSON_stringify [ana_review]]\<rparr>\<rparr>"
  have a: "saveReviews JSON_stringify ?s = Done ?s'"
    by (simp add: saveReviews_cases first_visit_def empty_store_def)
  from save_then_load [where S = JSON_stringify and P = JSON_parse and s = ?s and s'' = ?s',
      THEN conjunct2, rule_format, OF a] a
  show ?thesis by simp
qed

subsection \<open>ReviewSystem: the filtered view\<close>

lemma Number_toString_not_keyword:
  "Number_toString k \<noteq> ''all''" "Number_toString k \<noteq> ''images''"
proof -
  have a: "parseInt ''all'' = NaN" by (simp add: parseInt_eval)
  have i: "parseInt ''images'' = NaN" by (simp add: parseInt_eval)
  show "Number_toString k \<noteq> ''all''"
  proof
    assume "Number_toString k = ''all''"
    with parseInt_Number_toString [of k] a show False by simp
  qed
  show "Number_toString k \<noteq> ''images''"
  proof
    assume "Number_toString k = ''images''"
    with parseInt_Number_toString [of k] i show False by simp
  qed
qed

lemma view_of_filter:
  assumes "list_all2 (\<lambda>r item. shown item = keep r) rs its"
  shows "map fst (filter (\<lambda>(r, item). display item \<noteq> ''none'')
           (zip rs (map (\<lambda>item. item\<lparr>display := (if shown item then ''block'' else ''none'')\<rparr>) its)))
         = filter keep rs"
  using assms by (induction rs its rule: list_all2_induct) auto

lemma filteredView_filterReviews:
  assumes "list_all2 (\<lambda>r item.
     (let show0 = True;
          show1 = (if flt \<noteq> ''all'' then
                     (if flt = ''images'' then False
                      else js_strict_eq (parseInt (dataset_rating item)) (parseInt flt))
                   else show0)
      in show1) = keep r) (reviews s) (reviews_list s)"
  shows "filteredView (filterReviews flt s) = filter keep (reviews s)"
  unfolding filteredView_def filterReviews_def
  using view_of_filter [OF assms] by simp

text \<open>
  Claim C9. For every review collection shown in the list, the filter \<^verbatim>\<open>all\<close> leaves
  the whole collection on display in its stored order; the filter of a star value \<open>k\<close>
  leaves exactly the reviews whose rating equals \<open>k\<close>, in order; and the filter
  \<^verbatim>\<open>images\<close> leaves nothing on display.
\<close>

theorem filterReviews_views:
  assumes "rendered s"
  shows "filteredView (filterReviews ''all'' s) = reviews s
    \<and> (\<forall>k. filteredView (filterReviews (Number_toString k) s)
           = filter (\<lambda>r. rating r = k) (reviews s))
    \<and> filteredView (filterReviews ''images'' s) = []"
proof (intro conjI allI)
  from assms have len: "length (reviews s) = length (reviews_list s)"
    by (simp add: rendered_def list_all2_lengthD)
  have "filteredView (filterReviews ''all'' s) = filter (\<lambda>r. True) (reviews s)"
    by (rule filteredView_filterReviews) (simp add: list_all2_conv_all_nth len)
  then show "filteredView (filterReviews ''all'' s) = reviews s" by simp
  have "filteredView (filterReviews ''images'' s) = filter (\<lambda>r. False) (reviews s)"
    by (rule filteredView_filterReviews) (simp add: list_all2_conv_all_nth len)
  then show "filteredView (filterReviews ''images'' s) = []" by simp
  fix k
  show "filteredView (filterReviews (Number_toString k) s)
           = filter (\<lambda>r. rating r = k) (reviews s)"
  proof (rule filteredView_filterReviews)
    from assms
    show "list_all2 (\<lambda>r item.
       (let show0 = True;
            show1 = (if Number_toString k \<noteq> ''all'' then
                       (if Number_toString k = ''images'' then False
                        else js_strict_eq (parseInt (dataset_rating item))
                               (parseInt (Number_toString k)))
                     else show0)
        in show1) = (rating r = k)) (reviews s) (reviews_list s)"
      unfolding rendered_def
      by (rule list_all2_mono)
        (simp add: Number_toString_not_keyword parseInt_Number_toString)
  qed
qed

lemma rendered_renderReviews: "rendered (state_of (renderReviews average_text s))"
  by (simp add: rendered_def createReviewElement_def list_all2_conv_all_nth)

text \<open>C9 at a concrete input: a list with a five-star and a four-star review.\<close>

theorem filterReviews_views_witness:
  "rendered (state_of (renderReviews toFixed1_of_quotient
        (first_visit\<lparr>reviews := [ana_review, ana_review\<lparr>rating := 4\<rparr>]\<rparr>)))
   \<and> filteredView (filterReviews ''all'' (state_of (renderReviews toFixed1_of_quotient
        (first_visit\<lparr>reviews := [ana_review, ana_review\<lparr>rating := 4\<rparr>]\<rparr>))))
       = [ana_review, ana_review\<lparr>rating := 4\<rparr>]
   \<and> filteredView (filterReviews ''4'' (state_of (renderReviews toFixed1_of_quotient
        (first_visit\<lparr>reviews := [ana_review, ana_review\<lparr>rating := 4\<rparr>]\<rparr>))))
       = [ana_review\<lparr>rating := 4\<rparr>]
   \<and> filteredView (filterReviews ''images'' (state_of (renderReviews toFixed1_of_quotient
        (first_visit\<lparr>reviews := [ana_review, ana_review\<lparr>rating := 4\<rparr>]\<rparr>))))
       = []"
proof -
  let ?s = "state_of (renderReviews toFixed1_of_quotient
      (first_visit\<lparr>reviews := [ana_review, ana_review\<lparr>rating := 4\<rparr>]\<rparr>))"
  have r: "rendered ?s"
    by (simp add: rendered_def createReviewElement_def)
  have rv: "reviews ?s = [ana_review, ana_review\<lparr>rating := 4\<rparr>]"
    by simp
  have four: "Number_toString 4 = ''4''"
    by (simp add: Number_toString_def digits.simps [of 4] digit_char_def)
  have flt: "filter (\<lambda>r. rating r = 4) [ana_review, ana_review\<lparr>rating := 4\<rparr>]
      = [ana_review\<lparr>rating := 4\<rparr>]"
    by (simp add: ana_review_def)
  from filterReviews_views [OF r] have
    "filteredView (filterReviews ''all'' ?s) = reviews ?s"
    "filteredView (filterReviews (Number_toString 4) ?s) = filter (\<lambda>r. rating r = 4) (reviews ?s)"
    "filteredView (filterReviews ''images'' ?s) = []"
    by blast+
  with r show ?thesis unfolding rv four flt by simp
qed

text \<open>The hypothesis of C9 holds on every page the review system produces: after the
  constructor, and after every operation from such a page, also where the operation
  ends in the \<^verbatim>\<open>TypeError\<close> of \<^verbatim>\<open>updateSummary\<close>, which is raised after the list has
  been drawn again.\<close>

lemma rendered_constructor:
  "ReviewSystem_constructor average_text P ls notes = Inr s \<Longrightarrow> rendered s"
proof -
  assume a: "ReviewSystem_constructor average_text P ls notes = Inr s"
  then obtain rs where
    "renderReviews average_text \<lparr>reviews = rs, reviews_list = [],
        summary = createReviewSection, rating_stars = True, localStorage = ls,
        notifications = notes\<rparr> = Done s"
    by (auto simp: ReviewSystem_constructor_def split: sum.splits outcome.splits)
  then have "s = state_of (renderReviews average_text \<lparr>reviews = rs, reviews_list = [],
        summary = createReviewSection, rating_stars = True, localStorage = ls,
        notifications = notes\<rparr>)"
    by simp
  then show "rendered s"
    using rendered_renderReviews by simp
qed

lemma rating_bump_helpful: "map rating (bump_helpful i rs) = map rating rs"
  by (induction rs) auto

lemma rendered_cong:
  assumes "rendered s" "map rating (reviews s') = map rating (reviews s)"
    "map dataset_rating (reviews_list s') = map dataset_rating (reviews_list s)"
  shows "rendered s'"
proof -
  have "list_all2 (\<lambda>r item. dataset_rating item = Number_toString (rating r)) rs its
      \<longleftrightarrow> map dataset_rating its = map (\<lambda>r. Number_toString (rating r)) rs" for rs its
    by (auto simp: list_all2_conv_all_nth list_eq_iff_nth_eq)
  then have r: "rendered t \<longleftrightarrow>
      map dataset_rating (reviews_list t) = map Number_toString (map rating (reviews t))" for t
    by (simp add: rendered_def comp_def)
  from assms show ?thesis unfolding r by simp
qed

lemma rendered_markHelpful: "rendered s \<Longrightarrow> rendered (state_of (markHelpful S i s))"
proof (cases "find (\<lambda>r. review_id r = i) (reviews s)")
  case None
  assume "rendered s"
  with None show ?thesis by (simp add: markHelpful_def)
next
  case (Some r)
  assume r: "rendered s"
  show ?thesis
  proof (rule rendered_cong [OF r])
    show "map rating (reviews (state_of (markHelpful S i s))) = map rating (reviews s)"
      using Some by (simp add: reviews_markHelpful rating_bump_helpful)
    show "map dataset_rating (reviews_list (state_of (markHelpful S i s)))
        = map dataset_rating (reviews_list s)"
      using Some
      by (simp add: markHelpful_def saveReviews_cases showNotification_def Let_def)
  qed
qed

lemma rendered_filterReviews: "rendered s \<Longrightarrow> rendered (filterReviews flt s)"
  by (rule rendered_cong) (simp_all add: filterReviews_def Let_def comp_def)

lemma rendered_updateSummary:
  "rendered s \<Longrightarrow> rendered (state_of (updateSummary average_text s))"
  by (rule rendered_cong) simp_all

lemma rendered_addReview:
  assumes "\<not> refuses (localStorage s) (items (localStorage s)) ''bespoke-reviews''
             (S (r # reviews s))"
  shows "rendered (state_of (addReview average_text S r s))"
proof -
  let ?s2 = "s\<lparr>reviews := r # reviews s,
      localStorage := (localStorage s)\<lparr>items :=
        (items (localStorage s))(''bespoke-reviews'' \<mapsto> S (r # reviews s))\<rparr>\<rparr>"
  have sv: "saveReviews S (s\<lparr>reviews := r # reviews s\<rparr>) = Done ?s2"
    using assms by (simp add: saveReviews_cases)
  have rr: "rendered (state_of (renderReviews average_text ?s2))"
    by (rule rendered_renderReviews)
  show ?thesis
  proof (cases "renderReviews average_text ?s2")
    case (Thrown e s3)
    with rr sv show ?thesis by (simp add: addReview_def Let_def)
  next
    case (Done s3)
    with rr have "rendered s3" by simp
    then have "rendered (state_of (updateSummary average_text s3))"
      by (rule rendered_updateSummary)
    with Done sv show ?thesis by (simp add: addReview_def Let_def)
  qed
qed

lemma rendered_submitReview:
  assumes "rendered s"
    and "\<And>n. parseInt (ToString_attr (form_rating form)) = Num n \<Longrightarrow>
           \<not> refuses (localStorage s) (items (localStorage s)) ''bespoke-reviews''
               (S (review_of_form now isoDate n form # reviews s))"
  shows "rendered (state_of (submitReview average_text S now isoDate form s))"
proof (cases "truthy (parseInt (ToString_attr (form_rating form)))")
  case False
  then have "submitReview average_text S now isoDate form s
      = Done (showNotification ''Please select a rating'' ''error'' s)"
    by (rule submitReview_no_rating)
  with assms(1) show ?thesis
    by (simp add: showNotification_def rendered_def)
next
  case True
  then obtain n where n: "parseInt (ToString_attr (form_rating form)) = Num n" "n \<noteq> 0"
    by (cases "parseInt (ToString_attr (form_rating form))") auto
  let ?r = "review_of_form now isoDate n form"
  have "rendered (state_of (addReview average_text S ?r s))"
    by (rule rendered_addReview) (rule assms(2) [OF n(1)])
  then show ?thesis
    using n
    by (cases "addReview average_text S ?r s")
      (simp_all add: submitReview_def review_of_form_def Let_def showNotification_def
        rendered_def)
qed

end
